theory Spec2Isabelle
  imports Main "HOL-Library.Multiset"
begin

section \<open>Python values and builtins used by seller.py and market.py\<close>

text \<open>
  The rows returned by \<^verbatim>\<open>download_stock\<close> are dictionaries produced by pandas; a cell the
  code reads is a string, an integer, a float, or absent (\<^verbatim>\<open>dict.get\<close> then yields \<^verbatim>\<open>None\<close>).
  Strings are sequences of characters with code points below 256.

  A finite float is a dyadic number \<open>m * 2 ^ e\<close>; the other floats are the infinities and
  the NaNs. \<^verbatim>\<open>str\<close> of a float is its shortest decimal representation, which is not computed
  here: a float cell carries that text next to its value. An integer cell comes from a
  spreadsheet number, so it has far fewer digits than the limit above which \<^verbatim>\<open>str\<close> of an
  integer raises.
\<close>

datatype py_error =
  ValueError | TypeError | AttributeError | IndexError | OverflowError
  | HTTPError | ReadTimeout | ConnectionError

datatype pyfloat = Finite int int | Infinite | NaN

datatype pyval = PStr string | PInt int | PFloat string pyfloat | PNone

subsection \<open>\<^verbatim>\<open>str(x)\<close>\<close>

definition digit_char :: "nat \<Rightarrow> char" where
  "digit_char d = ''0123456789'' ! d"

function str_nat :: "nat \<Rightarrow> string" where
  "str_nat n = (if n < 10 then [digit_char n] else str_nat (n div 10) @ [digit_char (n mod 10)])"
  by pat_completeness auto
termination
  by (relation "measure id") auto

declare str_nat.simps [simp del]

fun py_str :: "pyval \<Rightarrow> string" where
  "py_str (PStr s) = s"
| "py_str (PInt i) = (if i < 0 then CHR ''-'' # str_nat (nat (- i)) else str_nat (nat i))"
| "py_str (PFloat text x) = text"
| "py_str PNone = ''None''"

subsection \<open>\<^verbatim>\<open>int(x)\<close>\<close>

text \<open>
  \<^verbatim>\<open>int\<close> of a string in base 10: surrounding whitespace is skipped (the six ASCII
  whitespace characters, next line and no-break space), one sign is allowed, then decimal
  digits in which single underscores may separate digits. Anything
  else raises \<^verbatim>\<open>ValueError\<close>, and so does a literal with more digits than the interpreter's
  limit, 4300 unless reconfigured (leading zeros count, underscores do not).
  \<^verbatim>\<open>int\<close> of a float truncates towards zero, and raises \<^verbatim>\<open>OverflowError\<close> on an infinity and
  \<^verbatim>\<open>ValueError\<close> on a NaN; \<^verbatim>\<open>int(None)\<close> raises \<^verbatim>\<open>TypeError\<close>.
\<close>

definition int_max_str_digits :: nat where
  "int_max_str_digits = 4300"

definition is_space :: "char \<Rightarrow> bool" where
  "is_space c \<longleftrightarrow>
     c \<in> {CHR 0x20, CHR 0x09, CHR 0x0A, CHR 0x0B, CHR 0x0C, CHR 0x0D, CHR 0x85, CHR 0xA0}"

definition is_digit :: "char \<Rightarrow> bool" where
  "is_digit c \<longleftrightarrow> 48 \<le> (of_char c :: nat) \<and> (of_char c :: nat) \<le> 57"

definition digit_val :: "char \<Rightarrow> nat" where
  "digit_val c = of_char c - 48"

definition strip :: "string \<Rightarrow> string" where
  "strip s = rev (dropWhile is_space (rev (dropWhile is_space s)))"

fun int_digits :: "bool \<Rightarrow> nat \<Rightarrow> string \<Rightarrow> nat option" where
  "int_digits after_digit acc [] = (if after_digit then Some acc else None)"
| "int_digits after_digit acc (c # cs) =
     (if is_digit c then int_digits True (10 * acc + digit_val c) cs
      else if c = CHR ''_'' \<and> after_digit then int_digits False acc cs
      else None)"

definition int_of_unsigned :: "bool \<Rightarrow> string \<Rightarrow> py_error + int" where
  "int_of_unsigned negative body =
     (case int_digits False 0 body of
        None \<Rightarrow> Inl ValueError
      | Some n \<Rightarrow>
          if int_max_str_digits < length (filter is_digit body) then Inl ValueError
          else Inr (if negative then - int n else int n))"

definition py_int_of_str :: "string \<Rightarrow> py_error + int" where
  "py_int_of_str s =
     (case strip s of
        [] \<Rightarrow> Inl ValueError
      | c # body \<Rightarrow>
          if c = CHR ''-'' then int_of_unsigned True body
          else if c = CHR ''+'' then int_of_unsigned False body
          else int_of_unsigned False (c # body))"

fun int_of_float :: "pyfloat \<Rightarrow> py_error + int" where
  "int_of_float (Finite m e) =
     Inr (if 0 \<le> e then m * 2 ^ nat e
          else if 0 \<le> m then m div 2 ^ nat (- e)
          else - ((- m) div 2 ^ nat (- e)))"
| "int_of_float Infinite = Inl OverflowError"
| "int_of_float NaN = Inl ValueError"

fun py_int :: "pyval \<Rightarrow> py_error + int" where
  "py_int (PInt i) = Inr i"
| "py_int (PStr s) = py_int_of_str s"
| "py_int (PFloat text x) = int_of_float x"
| "py_int PNone = Inl TypeError"

section \<open>seller.py: price_conversion\<close>

text \<open>
  \<^verbatim>\<open>return re.sub("[^0-9]", "", price.split(".")[0])\<close>

  \<^verbatim>\<open>split\<close> is a method of \<^verbatim>\<open>str\<close>: on an integer, a float or \<^verbatim>\<open>None\<close> the attribute
  lookup fails with \<^verbatim>\<open>AttributeError\<close> before \<^verbatim>\<open>re.sub\<close> is reached.
\<close>

fun split :: "char \<Rightarrow> string \<Rightarrow> string list" where
  "split sep [] = [[]]"
| "split sep (c # cs) =
     (if c = sep then [] # split sep cs
      else (case split sep cs of
              [] \<Rightarrow> [[c]]
            | p # ps \<Rightarrow> (c # p) # ps))"

definition re_sub_non_digits :: "string \<Rightarrow> string" where
  "re_sub_non_digits s = filter is_digit s"

fun price_conversion :: "pyval \<Rightarrow> py_error + string" where
  "price_conversion (PStr price) =
     (case split (CHR ''.'') price of
        [] \<Rightarrow> Inl IndexError
      | p # _ \<Rightarrow> Inr (re_sub_non_digits p))"
| "price_conversion (PInt i) = Inl AttributeError"
| "price_conversion (PFloat text x) = Inl AttributeError"
| "price_conversion PNone = Inl AttributeError"

section \<open>seller.py: divide\<close>

text \<open>
  \<^verbatim>\<open>for i in range(0, len(lst), n): yield lst[i : i + n]\<close>

  Every caller consumes the generator with \<^verbatim>\<open>list(...)\<close>; the model is the list of all
  chunks produced, or the exception raised when the generator body starts.
\<close>

function range_up :: "int \<Rightarrow> int \<Rightarrow> int \<Rightarrow> int list" where
  "range_up i stop step =
     (if 0 < step \<and> i < stop then i # range_up (i + step) stop step else [])"
  by pat_completeness auto
termination
  by (relation "measure (\<lambda>(i, stop, step). nat (stop - i))") auto

function range_down :: "int \<Rightarrow> int \<Rightarrow> int \<Rightarrow> int list" where
  "range_down i stop step =
     (if step < 0 \<and> stop < i then i # range_down (i + step) stop step else [])"
  by pat_completeness auto
termination
  by (relation "measure (\<lambda>(i, stop, step). nat (i - stop))") auto

declare range_up.simps [simp del] range_down.simps [simp del]

definition py_range :: "int \<Rightarrow> int \<Rightarrow> int \<Rightarrow> py_error + int list" where
  "py_range start stop step =
     (if step = 0 then Inl ValueError
      else if 0 < step then Inr (range_up start stop step)
      else Inr (range_down start stop step))"

definition slice_index :: "nat \<Rightarrow> int \<Rightarrow> nat" where
  "slice_index len i = (if i < 0 then nat (max 0 (int len + i)) else min len (nat i))"

definition py_slice :: "'a list \<Rightarrow> int \<Rightarrow> int \<Rightarrow> 'a list" where
  "py_slice lst lo hi =
     (let a = slice_index (length lst) lo; b = slice_index (length lst) hi
      in take (b - a) (drop a lst))"

definition divide :: "'a list \<Rightarrow> int \<Rightarrow> py_error + 'a list list" where
  "divide lst n =
     (case py_range 0 (int (length lst)) n of
        Inl e \<Rightarrow> Inl e
      | Inr indices \<Rightarrow> Inr (map (\<lambda>i. py_slice lst i (i + n)) indices))"

section \<open>Inventory rows and payload records\<close>

text \<open>
  A row of the spreadsheet is a dictionary; the code reads three of its keys, always with
  \<^verbatim>\<open>dict.get\<close>, so an absent key reads as \<^verbatim>\<open>None\<close>. The fields stand for the keys
  "Kod" (code), "Kolichestvo" (quantity) and "Tsena" (price), which the source writes in
  Cyrillic.
\<close>

record watch =
  Kod :: pyval
  Kolichestvo :: pyval
  Tsena :: pyval

text \<open>
  The dictionaries appended by seller.py. The price dictionary's key \<^verbatim>\<open>offer_id\<close> is the
  field \<open>price_offer_id\<close>.
\<close>

record seller_stock =
  offer_id :: string
  stock :: int

record seller_price =
  auto_action_enabled :: string
  currency_code :: string
  price_offer_id :: string
  old_price :: string
  price :: string

text \<open>
  The dictionaries appended by market.py. The keys \<^verbatim>\<open>count\<close>, \<^verbatim>\<open>type\<close>, \<^verbatim>\<open>id\<close>, \<^verbatim>\<open>price\<close>
  and \<^verbatim>\<open>value\<close> are the fields \<open>item_count\<close>, \<open>item_type\<close>, \<open>price_id\<close>, \<open>price_amount\<close>
  and \<open>amount_value\<close>.
\<close>

record market_item =
  item_count :: int
  item_type :: string
  updatedAt :: string

record market_stock =
  sku :: string
  warehouseId :: string
  items :: "market_item list"

record market_amount =
  amount_value :: int
  currencyId :: string

record market_price =
  price_id :: string
  price_amount :: market_amount

section \<open>create_stocks\<close>

text \<open>
  The quantity block, the same text in seller.py (lines 303-309) and market.py (lines 277-283):
  \<^verbatim>\<open>
  count = str(watch.get("Kolichestvo"))
  if count == ">10": stock = 100
  elif count == "1": stock = 0
  else: stock = int(watch.get("Kolichestvo"))
  \<close>
\<close>

definition stock_count :: "watch \<Rightarrow> py_error + int" where
  "stock_count watch =
     (let count = py_str (Kolichestvo watch)
      in if count = ''>10'' then Inr 100
         else if count = ''1'' then Inr 0
         else py_int (Kolichestvo watch))"

text \<open>
  seller.py, \<^verbatim>\<open>create_stocks(watch_remnants, offer_ids)\<close>. The first loop appends to
  \<^verbatim>\<open>stocks\<close> and removes from the caller's list \<^verbatim>\<open>offer_ids\<close>; \<^verbatim>\<open>list.remove\<close> deletes the
  first occurrence and is only called after the membership test. The result carries the
  list returned and the final contents of \<^verbatim>\<open>offer_ids\<close>.
\<close>

fun seller_stocks_rows ::
  "watch list \<Rightarrow> seller_stock list \<Rightarrow> string list \<Rightarrow> py_error + seller_stock list \<times> string list"
where
  "seller_stocks_rows [] stocks offer_ids = Inr (stocks, offer_ids)"
| "seller_stocks_rows (watch # rest) stocks offer_ids =
     (if py_str (Kod watch) \<in> set offer_ids then
        (case stock_count watch of
           Inl e \<Rightarrow> Inl e
         | Inr n \<Rightarrow>
             seller_stocks_rows rest
               (stocks @ [\<lparr>offer_id = py_str (Kod watch), stock = n\<rparr>])
               (remove1 (py_str (Kod watch)) offer_ids))
      else seller_stocks_rows rest stocks offer_ids)"

fun seller_stocks_missing :: "string list \<Rightarrow> seller_stock list \<Rightarrow> seller_stock list" where
  "seller_stocks_missing [] stocks = stocks"
| "seller_stocks_missing (oid # rest) stocks =
     seller_stocks_missing rest (stocks @ [\<lparr>offer_id = oid, stock = 0\<rparr>])"

definition seller_create_stocks ::
  "watch list \<Rightarrow> string list \<Rightarrow> py_error + seller_stock list \<times> string list"
where
  "seller_create_stocks watch_remnants offer_ids =
     (case seller_stocks_rows watch_remnants [] offer_ids of
        Inl e \<Rightarrow> Inl e
      | Inr (stocks, offer_ids') \<Rightarrow> Inr (seller_stocks_missing offer_ids' stocks, offer_ids'))"

text \<open>
  market.py, \<^verbatim>\<open>create_stocks(watch_remnants, offer_ids, warehouse_id)\<close>. The timestamp
  \<^verbatim>\<open>date\<close> is read from the clock once, before the loops; it is an argument here.
\<close>

definition market_stock_entry :: "string \<Rightarrow> string \<Rightarrow> string \<Rightarrow> int \<Rightarrow> market_stock" where
  "market_stock_entry warehouse_id date s n =
     \<lparr>sku = s, warehouseId = warehouse_id,
      items = [\<lparr>item_count = n, item_type = ''FIT'', updatedAt = date\<rparr>]\<rparr>"

fun market_stocks_rows ::
  "string \<Rightarrow> string \<Rightarrow> watch list \<Rightarrow> market_stock list \<Rightarrow> string list
     \<Rightarrow> py_error + market_stock list \<times> string list"
where
  "market_stocks_rows warehouse_id date [] stocks offer_ids = Inr (stocks, offer_ids)"
| "market_stocks_rows warehouse_id date (watch # rest) stocks offer_ids =
     (if py_str (Kod watch) \<in> set offer_ids then
        (case stock_count watch of
           Inl e \<Rightarrow> Inl e
         | Inr n \<Rightarrow>
             market_stocks_rows warehouse_id date rest
               (stocks @ [market_stock_entry warehouse_id date (py_str (Kod watch)) n])
               (remove1 (py_str (Kod watch)) offer_ids))
      else market_stocks_rows warehouse_id date rest stocks offer_ids)"

fun market_stocks_missing ::
  "string \<Rightarrow> string \<Rightarrow> string list \<Rightarrow> market_stock list \<Rightarrow> market_stock list"
where
  "market_stocks_missing warehouse_id date [] stocks = stocks"
| "market_stocks_missing warehouse_id date (oid # rest) stocks =
     market_stocks_missing warehouse_id date rest
       (stocks @ [market_stock_entry warehouse_id date oid 0])"

definition market_create_stocks ::
  "watch list \<Rightarrow> string list \<Rightarrow> string \<Rightarrow> string \<Rightarrow> py_error + market_stock list \<times> string list"
where
  "market_create_stocks watch_remnants offer_ids warehouse_id date =
     (case market_stocks_rows warehouse_id date watch_remnants [] offer_ids of
        Inl e \<Rightarrow> Inl e
      | Inr (stocks, offer_ids') \<Rightarrow>
          Inr (market_stocks_missing warehouse_id date offer_ids' stocks, offer_ids'))"

section \<open>create_prices\<close>

text \<open>seller.py: the price is the string returned by \<^verbatim>\<open>price_conversion\<close>.\<close>

fun seller_prices_rows ::
  "watch list \<Rightarrow> seller_price list \<Rightarrow> string list \<Rightarrow> py_error + seller_price list"
where
  "seller_prices_rows [] prices offer_ids = Inr prices"
| "seller_prices_rows (watch # rest) prices offer_ids =
     (if py_str (Kod watch) \<in> set offer_ids then
        (case price_conversion (Tsena watch) of
           Inl e \<Rightarrow> Inl e
         | Inr p \<Rightarrow>
             seller_prices_rows rest
               (prices @ [\<lparr>auto_action_enabled = ''UNKNOWN'', currency_code = ''RUB'',
                           price_offer_id = py_str (Kod watch), old_price = ''0'', price = p\<rparr>])
               offer_ids)
      else seller_prices_rows rest prices offer_ids)"

definition seller_create_prices :: "watch list \<Rightarrow> string list \<Rightarrow> py_error + seller_price list" where
  "seller_create_prices watch_remnants offer_ids = seller_prices_rows watch_remnants [] offer_ids"

text \<open>market.py: the price value is \<^verbatim>\<open>int(price_conversion(...))\<close>.\<close>

fun market_prices_rows ::
  "watch list \<Rightarrow> market_price list \<Rightarrow> string list \<Rightarrow> py_error + market_price list"
where
  "market_prices_rows [] prices offer_ids = Inr prices"
| "market_prices_rows (watch # rest) prices offer_ids =
     (if py_str (Kod watch) \<in> set offer_ids then
        (case price_conversion (Tsena watch) of
           Inl e \<Rightarrow> Inl e
         | Inr p \<Rightarrow>
             (case py_int (PStr p) of
                Inl e \<Rightarrow> Inl e
              | Inr v \<Rightarrow>
                  market_prices_rows rest
                    (prices @ [\<lparr>price_id = py_str (Kod watch),
                                price_amount = \<lparr>amount_value = v, currencyId = ''RUR''\<rparr>\<rparr>])
                    offer_ids))
      else market_prices_rows rest prices offer_ids)"

definition market_create_prices :: "watch list \<Rightarrow> string list \<Rightarrow> py_error + market_price list" where
  "market_create_prices watch_remnants offer_ids = market_prices_rows watch_remnants [] offer_ids"

section \<open>Notions used in the statements\<close>

text \<open>The stringified code of a row, \<^verbatim>\<open>str(watch.get("Kod"))\<close>.\<close>

definition key :: "watch \<Rightarrow> string" where
  "key watch = py_str (Kod watch)"

text \<open>The results of \<open>f\<close> on a list, or the leftmost error.\<close>

fun collect :: "('a \<Rightarrow> py_error + 'b) \<Rightarrow> 'a list \<Rightarrow> py_error + 'b list" where
  "collect f [] = Inr []"
| "collect f (x # xs) =
     (case f x of
        Inl e \<Rightarrow> Inl e
      | Inr y \<Rightarrow> (case collect f xs of Inl e \<Rightarrow> Inl e | Inr ys \<Rightarrow> Inr (y # ys)))"

text \<open>
  The rows that find their code in the working list when their turn comes, and the working
  list after all rows: each match deletes the first occurrence of the code.
\<close>

fun matched_rows :: "string list \<Rightarrow> watch list \<Rightarrow> watch list" where
  "matched_rows ids [] = []"
| "matched_rows ids (w # ws) =
     (if key w \<in> set ids then w # matched_rows (remove1 (key w) ids) ws
      else matched_rows ids ws)"

fun remaining_ids :: "string list \<Rightarrow> watch list \<Rightarrow> string list" where
  "remaining_ids ids [] = ids"
| "remaining_ids ids (w # ws) =
     (if key w \<in> set ids then remaining_ids (remove1 (key w) ids) ws
      else remaining_ids ids ws)"

text \<open>
  The rows whose code is in the catalog and was not the code of an earlier row; the catalog
  ids that are the code of no row, in catalog order; the rows whose code is in the catalog.
\<close>

definition first_rows :: "string list \<Rightarrow> watch list \<Rightarrow> watch list" where
  "first_rows ids rows =
     map (\<lambda>i. rows ! i)
       (filter (\<lambda>i. key (rows ! i) \<in> set ids \<and> key (rows ! i) \<notin> set (map key (take i rows)))
          [0..<length rows])"

definition unmatched_ids :: "string list \<Rightarrow> watch list \<Rightarrow> string list" where
  "unmatched_ids ids rows = filter (\<lambda>oid. oid \<notin> set (map key rows)) ids"

definition matching_rows :: "string list \<Rightarrow> watch list \<Rightarrow> watch list" where
  "matching_rows ids rows = filter (\<lambda>w. key w \<in> set ids) rows"

text \<open>
  The two first loops of \<^verbatim>\<open>create_stocks\<close> differ only in the dictionary they append; this
  is their common scheme, and the dictionaries built by the two modules.
\<close>

fun stocks_rows ::
  "(string \<Rightarrow> int \<Rightarrow> 'r) \<Rightarrow> watch list \<Rightarrow> 'r list \<Rightarrow> string list \<Rightarrow> py_error + 'r list \<times> string list"
where
  "stocks_rows entry [] stocks offer_ids = Inr (stocks, offer_ids)"
| "stocks_rows entry (watch # rest) stocks offer_ids =
     (if key watch \<in> set offer_ids then
        (case stock_count watch of
           Inl e \<Rightarrow> Inl e
         | Inr n \<Rightarrow>
             stocks_rows entry rest (stocks @ [entry (key watch) n])
               (remove1 (key watch) offer_ids))
      else stocks_rows entry rest stocks offer_ids)"

definition seller_stock_entry :: "string \<Rightarrow> int \<Rightarrow> seller_stock" where
  "seller_stock_entry s n = \<lparr>offer_id = s, stock = n\<rparr>"

definition seller_price_entry :: "string \<Rightarrow> string \<Rightarrow> seller_price" where
  "seller_price_entry s p =
     \<lparr>auto_action_enabled = ''UNKNOWN'', currency_code = ''RUB'',
      price_offer_id = s, old_price = ''0'', price = p\<rparr>"

definition market_price_entry :: "string \<Rightarrow> int \<Rightarrow> market_price" where
  "market_price_entry s v =
     \<lparr>price_id = s, price_amount = \<lparr>amount_value = v, currencyId = ''RUR''\<rparr>\<rparr>"









section \<open>Example data\<close>

text \<open>
  Rows and catalogs on which the statements below are evaluated. The first row is the one of
  the docstring of \<^verbatim>\<open>download_stock\<close>, with the currency suffix in ASCII.
\<close>

definition row_63433 :: watch where
  "row_63433 = \<lparr>Kod = PInt 63433, Kolichestvo = PStr ''>10'', Tsena = PStr ''2'240.00 rub.''\<rparr>"

definition row_7 :: watch where
  "row_7 = \<lparr>Kod = PStr ''7'', Kolichestvo = PInt 1, Tsena = PStr ''abc''\<rparr>"

definition row_555 :: watch where
  "row_555 = \<lparr>Kod = PStr ''555'', Kolichestvo = PStr ''12'', Tsena = PStr ''99''\<rparr>"

definition row_8_bad :: watch where
  "row_8_bad = \<lparr>Kod = PStr ''8'', Kolichestvo = PStr ''many'', Tsena = PInt 1000\<rparr>"






section \<open>The calls to the outside and the two main functions\<close>

text \<open>
  \<^verbatim>\<open>get_offer_ids\<close>, \<^verbatim>\<open>download_stock\<close>, \<^verbatim>\<open>update_stocks\<close> and \<^verbatim>\<open>update_price\<close> talk to
  remote servers. A run is modelled against a world that fixes what each call gives back,
  the value it returns or the exception it raises; the reply may depend on how many calls
  were made before. Every call attempted is appended to a trace, and so is every report
  printed by the handlers of \<^verbatim>\<open>main\<close>. Runs in which a call never comes back are not
  represented. The values of the environment variables are the configuration of a run.
\<close>

datatype report = TimeoutReport | ConnectionReport py_error | OtherReport py_error

datatype ('s, 'p) event =
  GetOfferIds string string
  | DownloadStock
  | UpdateStocks "'s list" string string
  | UpdatePrice "'p list" string string
  | Print report

record ('s, 'p) world =
  offer_ids_reply :: "nat \<Rightarrow> string \<Rightarrow> string \<Rightarrow> py_error + string list"
  download_reply :: "nat \<Rightarrow> py_error + watch list"
  stocks_reply :: "nat \<Rightarrow> 's list \<Rightarrow> string \<Rightarrow> string \<Rightarrow> py_error + unit"
  price_reply :: "nat \<Rightarrow> 'p list \<Rightarrow> string \<Rightarrow> string \<Rightarrow> py_error + unit"
  utcnow :: "nat \<Rightarrow> string"

type_synonym ('a, 's, 'p) io = "('s, 'p) event list \<Rightarrow> (py_error + 'a) \<times> ('s, 'p) event list"

definition returns :: "'a \<Rightarrow> ('a, 's, 'p) io" where
  "returns x = (\<lambda>tr. (Inr x, tr))"

definition lift :: "py_error + 'a \<Rightarrow> ('a, 's, 'p) io" where
  "lift r = (\<lambda>tr. (r, tr))"

definition io_bind :: "('a, 's, 'p) io \<Rightarrow> ('a \<Rightarrow> ('b, 's, 'p) io) \<Rightarrow> ('b, 's, 'p) io" where
  "io_bind m f =
     (\<lambda>tr. case m tr of
             (Inl e, tr') \<Rightarrow> (Inl e, tr')
           | (Inr x, tr') \<Rightarrow> f x tr')"

fun for_each :: "'a list \<Rightarrow> ('a \<Rightarrow> (unit, 's, 'p) io) \<Rightarrow> (unit, 's, 'p) io" where
  "for_each [] body = returns ()"
| "for_each (x # xs) body = io_bind (body x) (\<lambda>_. for_each xs body)"

definition try_except ::
  "(unit, 's, 'p) io \<Rightarrow> (py_error \<Rightarrow> (unit, 's, 'p) io) \<Rightarrow> (unit, 's, 'p) io"
where
  "try_except body handler =
     (\<lambda>tr. case body tr of
             (Inl e, tr') \<Rightarrow> handler e tr'
           | (Inr x, tr') \<Rightarrow> (Inr x, tr'))"

definition get_offer_ids :: "('s, 'p) world \<Rightarrow> string \<Rightarrow> string \<Rightarrow> (string list, 's, 'p) io" where
  "get_offer_ids w campaign_id token =
     (\<lambda>tr. (offer_ids_reply w (length tr) campaign_id token, tr @ [GetOfferIds campaign_id token]))"

definition download_stock :: "('s, 'p) world \<Rightarrow> (watch list, 's, 'p) io" where
  "download_stock w = (\<lambda>tr. (download_reply w (length tr), tr @ [DownloadStock]))"

definition update_stocks :: "('s, 'p) world \<Rightarrow> 's list \<Rightarrow> string \<Rightarrow> string \<Rightarrow> (unit, 's, 'p) io" where
  "update_stocks w stocks campaign_id token =
     (\<lambda>tr. (stocks_reply w (length tr) stocks campaign_id token,
            tr @ [UpdateStocks stocks campaign_id token]))"

definition update_price :: "('s, 'p) world \<Rightarrow> 'p list \<Rightarrow> string \<Rightarrow> string \<Rightarrow> (unit, 's, 'p) io" where
  "update_price w prices campaign_id token =
     (\<lambda>tr. (price_reply w (length tr) prices campaign_id token,
            tr @ [UpdatePrice prices campaign_id token]))"

text \<open>
  The three handlers of both \<^verbatim>\<open>main\<close> functions: \<^verbatim>\<open>ReadTimeout\<close>, \<^verbatim>\<open>ConnectionError\<close>, and
  \<^verbatim>\<open>Exception\<close> for everything else. Each prints and lets \<^verbatim>\<open>main\<close> return.
\<close>

definition report_of :: "py_error \<Rightarrow> report" where
  "report_of e =
     (if e = ReadTimeout then TimeoutReport
      else if e = ConnectionError then ConnectionReport e
      else OtherReport e)"

definition main_handler :: "py_error \<Rightarrow> (unit, 's, 'p) io" where
  "main_handler e = (\<lambda>tr. (Inr (), tr @ [Print (report_of e)]))"

subsection \<open>seller.py: main\<close>

record seller_config =
  seller_token :: string
  client_id :: string

text \<open>
  \<^verbatim>\<open>create_prices\<close> receives the list \<^verbatim>\<open>offer_ids\<close> that \<^verbatim>\<open>create_stocks\<close> has mutated: the
  second component of its result.
\<close>

definition seller_main :: "seller_config \<Rightarrow> (seller_stock, seller_price) world
    \<Rightarrow> (unit, seller_stock, seller_price) io" where
  "seller_main cfg w =
     try_except
       (io_bind (get_offer_ids w (client_id cfg) (seller_token cfg)) (\<lambda>offer_ids.
        io_bind (download_stock w) (\<lambda>watch_remnants.
        io_bind (lift (seller_create_stocks watch_remnants offer_ids)) (\<lambda>(stocks, offer_ids').
        io_bind (lift (divide stocks 100)) (\<lambda>stock_chunks.
        io_bind (for_each stock_chunks
                   (\<lambda>some_stock. update_stocks w some_stock (client_id cfg) (seller_token cfg))) (\<lambda>_.
        io_bind (lift (seller_create_prices watch_remnants offer_ids')) (\<lambda>prices.
        io_bind (lift (divide prices 900)) (\<lambda>price_chunks.
        for_each price_chunks
          (\<lambda>some_price. update_price w some_price (client_id cfg) (seller_token cfg))))))))))
       main_handler"

subsection \<open>market.py: upload_prices and main\<close>

text \<open>
  \<^verbatim>\<open>upload_prices\<close> is declared \<^verbatim>\<open>async def\<close>: calling it builds a coroutine object and runs
  nothing of its body. The body runs only when the coroutine is awaited or driven by an
  event loop, which is \<open>run_coroutine\<close>.
\<close>

datatype ('a, 's, 'p) coroutine = Coroutine "('a, 's, 'p) io"

fun run_coroutine :: "('a, 's, 'p) coroutine \<Rightarrow> ('a, 's, 'p) io" where
  "run_coroutine (Coroutine body) = body"

definition upload_prices :: "(market_stock, market_price) world \<Rightarrow> watch list \<Rightarrow> string \<Rightarrow> string
    \<Rightarrow> (market_price list, market_stock, market_price) coroutine" where
  "upload_prices w watch_remnants campaign_id market_token =
     Coroutine
       (io_bind (get_offer_ids w campaign_id market_token) (\<lambda>offer_ids.
        io_bind (lift (market_create_prices watch_remnants offer_ids)) (\<lambda>prices.
        io_bind (lift (divide prices 500)) (\<lambda>price_chunks.
        io_bind (for_each price_chunks
                   (\<lambda>some_prices. update_price w some_prices campaign_id market_token)) (\<lambda>_.
        returns prices)))))"

record market_config =
  market_token :: string
  campaign_fbs_id :: string
  campaign_dbs_id :: string
  warehouse_fbs_id :: string
  warehouse_dbs_id :: string

text \<open>\<^verbatim>\<open>create_stocks\<close> of market.py reads the clock when it starts.\<close>

definition create_stocks_now :: "(market_stock, market_price) world \<Rightarrow> watch list \<Rightarrow> string list
    \<Rightarrow> string \<Rightarrow> (market_stock list \<times> string list, market_stock, market_price) io" where
  "create_stocks_now w watch_remnants offer_ids warehouse_id =
     (\<lambda>tr. (market_create_stocks watch_remnants offer_ids warehouse_id (utcnow w (length tr)), tr))"

text \<open>
  \<^verbatim>\<open>download_stock()\<close> is called before the \<^verbatim>\<open>try\<close>; the FBS and the DBS block are inside
  one \<^verbatim>\<open>try\<close>. The two calls of \<^verbatim>\<open>upload_prices\<close> are expression statements in a function that
  is not \<^verbatim>\<open>async\<close>: the coroutine object is dropped.
\<close>

definition market_main :: "market_config \<Rightarrow> (market_stock, market_price) world
    \<Rightarrow> (unit, market_stock, market_price) io" where
  "market_main cfg w =
     io_bind (download_stock w) (\<lambda>watch_remnants.
     try_except
       (io_bind (get_offer_ids w (campaign_fbs_id cfg) (market_token cfg)) (\<lambda>offer_ids.
        io_bind (create_stocks_now w watch_remnants offer_ids (warehouse_fbs_id cfg)) (\<lambda>(stocks, _).
        io_bind (lift (divide stocks 2000)) (\<lambda>stock_chunks.
        io_bind (for_each stock_chunks
                   (\<lambda>some_stock. update_stocks w some_stock (campaign_fbs_id cfg) (market_token cfg))) (\<lambda>_.
        io_bind (returns (upload_prices w watch_remnants (campaign_fbs_id cfg) (market_token cfg))) (\<lambda>_.
        io_bind (get_offer_ids w (campaign_dbs_id cfg) (market_token cfg)) (\<lambda>offer_ids.
        io_bind (create_stocks_now w watch_remnants offer_ids (warehouse_dbs_id cfg)) (\<lambda>(stocks, _).
        io_bind (lift (divide stocks 2000)) (\<lambda>stock_chunks.
        io_bind (for_each stock_chunks
                   (\<lambda>some_stock. update_stocks w some_stock (campaign_dbs_id cfg) (market_token cfg))) (\<lambda>_.
        io_bind (returns (upload_prices w watch_remnants (campaign_dbs_id cfg) (market_token cfg))) (\<lambda>_.
        returns ())))))))))))
       main_handler)"

text \<open>
  One block of \<^verbatim>\<open>main\<close> in market.py, for a campaign and its warehouse: the FBS block and
  the DBS block are this text with different identifiers.
\<close>

definition market_segment :: "(market_stock, market_price) world \<Rightarrow> watch list \<Rightarrow> string \<Rightarrow> string
    \<Rightarrow> string \<Rightarrow> (unit, market_stock, market_price) io" where
  "market_segment w watch_remnants campaign_id warehouse_id token =
     io_bind (get_offer_ids w campaign_id token) (\<lambda>offer_ids.
     io_bind (create_stocks_now w watch_remnants offer_ids warehouse_id) (\<lambda>(stocks, _).
     io_bind (lift (divide stocks 2000)) (\<lambda>stock_chunks.
     io_bind (for_each stock_chunks
                (\<lambda>some_stock. update_stocks w some_stock campaign_id token)) (\<lambda>_.
     io_bind (returns (upload_prices w watch_remnants campaign_id token)) (\<lambda>_.
     returns ())))))"

fun is_update_price :: "('s, 'p) event \<Rightarrow> bool" where
  "is_update_price (UpdatePrice prices campaign_id token) = True"
| "is_update_price _ = False"

fun is_print :: "('s, 'p) event \<Rightarrow> bool" where
  "is_print (Print r) = True"
| "is_print _ = False"

text \<open>The calls a block makes for its campaign.\<close>

fun is_call_of :: "string \<Rightarrow> ('s, 'p) event \<Rightarrow> bool" where
  "is_call_of c (GetOfferIds campaign_id token) = (campaign_id = c)"
| "is_call_of c (UpdateStocks stocks campaign_id token) = (campaign_id = c)"
| "is_call_of c _ = False"

text \<open>An action that appends only events satisfying \<open>Q\<close> to the trace.\<close>

definition appends_only :: "(('s, 'p) event \<Rightarrow> bool) \<Rightarrow> ('a, 's, 'p) io \<Rightarrow> bool" where
  "appends_only Q m \<longleftrightarrow> (\<forall>tr. \<exists>evs. snd (m tr) = tr @ evs \<and> list_all Q evs)"

text \<open>
  The requests of an upload loop against the replies of the world. \<open>reply m x\<close> is the answer
  to the request for the chunk \<open>x\<close> made when the trace holds \<open>m\<close> events, and \<open>n\<close> is the
  length of the trace before the first request. The chunks are accepted when every request
  is answered without an error; the upload fails at chunk \<open>k\<close> with \<open>e\<close> when the chunks before
  it are accepted and the request for chunk \<open>k\<close> raises \<open>e\<close>.
\<close>

definition accepted :: "(nat \<Rightarrow> 'a \<Rightarrow> py_error + unit) \<Rightarrow> nat \<Rightarrow> 'a list \<Rightarrow> bool" where
  "accepted reply n chunks \<longleftrightarrow>
     list_all (\<lambda>j. reply (n + j) (chunks ! j) = Inr ()) [0..<length chunks]"

definition fails_at ::
  "(nat \<Rightarrow> 'a \<Rightarrow> py_error + unit) \<Rightarrow> nat \<Rightarrow> 'a list \<Rightarrow> nat \<Rightarrow> py_error \<Rightarrow> bool"
where
  "fails_at reply n chunks k e \<longleftrightarrow>
     k < length chunks \<and> accepted reply n (take k chunks) \<and> reply (n + k) (chunks ! k) = Inl e"

text \<open>
  Configurations and worlds for the examples: a world in which every call succeeds; the
  same world with the catalog request of the FBS campaign answered by an HTTP error; with
  every stock upload failing on the connection; and with the stock uploads of the DBS
  campaign timing out.
\<close>

definition market_cfg :: market_config where
  "market_cfg =
     \<lparr>market_token = ''token'', campaign_fbs_id = ''FBS'', campaign_dbs_id = ''DBS'',
      warehouse_fbs_id = ''W1'', warehouse_dbs_id = ''W2''\<rparr>"

definition seller_cfg :: seller_config where
  "seller_cfg = \<lparr>seller_token = ''token'', client_id = ''client''\<rparr>"

definition world_ok :: "('s, 'p) world" where
  "world_ok =
     \<lparr>offer_ids_reply = (\<lambda>n campaign_id token. Inr [''63433'', ''99999'']),
      download_reply = (\<lambda>n. Inr [row_63433]),
      stocks_reply = (\<lambda>n stocks campaign_id token. Inr ()),
      price_reply = (\<lambda>n prices campaign_id token. Inr ()),
      utcnow = (\<lambda>n. ''2025-01-20T17:14:52Z'')\<rparr>"

definition world_fbs_down :: "('s, 'p) world" where
  "world_fbs_down =
     \<lparr>offer_ids_reply =
        (\<lambda>n campaign_id token. if campaign_id = ''FBS'' then Inl HTTPError
                                else Inr [''63433'', ''99999'']),
      download_reply = (\<lambda>n. Inr [row_63433]),
      stocks_reply = (\<lambda>n stocks campaign_id token. Inr ()),
      price_reply = (\<lambda>n prices campaign_id token. Inr ()),
      utcnow = (\<lambda>n. ''2025-01-20T17:14:52Z'')\<rparr>"

definition world_stocks_down :: "('s, 'p) world" where
  "world_stocks_down =
     \<lparr>offer_ids_reply = (\<lambda>n campaign_id token. Inr [''63433'', ''99999'']),
      download_reply = (\<lambda>n. Inr [row_63433]),
      stocks_reply = (\<lambda>n stocks campaign_id token. Inl ConnectionError),
      price_reply = (\<lambda>n prices campaign_id token. Inr ()),
      utcnow = (\<lambda>n. ''2025-01-20T17:14:52Z'')\<rparr>"

definition world_dbs_down :: "('s, 'p) world" where
  "world_dbs_down =
     \<lparr>offer_ids_reply = (\<lambda>n campaign_id token. Inr [''63433'', ''99999'']),
      download_reply = (\<lambda>n. Inr [row_63433]),
      stocks_reply =
        (\<lambda>n stocks campaign_id token. if campaign_id = ''DBS'' then Inl ReadTimeout else Inr ()),
      price_reply = (\<lambda>n prices campaign_id token. Inr ()),
      utcnow = (\<lambda>n. ''2025-01-20T17:14:52Z'')\<rparr>"

text \<open>
  Further variants of the world in which every call succeeds, one for each step that can
  fail: a catalog request that fails for every campaign, or for the DBS campaign only; a
  download that fails; a matched row whose quantity is not a number, for every campaign or
  for the DBS campaign only; a catalog with a repeated id, for which seller.py has prices to
  upload, with a price that is an integer or with price uploads timing out.
\<close>

definition world_fetch_down :: "('s, 'p) world" where
  "world_fetch_down = world_ok\<lparr>offer_ids_reply := (\<lambda>n campaign_id token. Inl ReadTimeout)\<rparr>"

definition world_dbs_fetch_down :: "('s, 'p) world" where
  "world_dbs_fetch_down =
     world_ok\<lparr>offer_ids_reply :=
       (\<lambda>n campaign_id token. if campaign_id = ''DBS'' then Inl HTTPError
                               else Inr [''63433'', ''99999''])\<rparr>"

definition world_download_down :: "('s, 'p) world" where
  "world_download_down = world_ok\<lparr>download_reply := (\<lambda>n. Inl ConnectionError)\<rparr>"

definition world_bad_row :: "('s, 'p) world" where
  "world_bad_row =
     world_ok\<lparr>offer_ids_reply := (\<lambda>n campaign_id token. Inr [''8'']),
              download_reply := (\<lambda>n. Inr [row_8_bad])\<rparr>"

definition world_dbs_bad_row :: "('s, 'p) world" where
  "world_dbs_bad_row =
     world_ok\<lparr>offer_ids_reply :=
                (\<lambda>n campaign_id token. if campaign_id = ''DBS'' then Inr [''8'']
                                        else Inr [''63433'', ''99999'']),
              download_reply := (\<lambda>n. Inr [row_63433, row_8_bad])\<rparr>"

definition row_int_price :: watch where
  "row_int_price = \<lparr>Kod = PStr ''8'', Kolichestvo = PStr ''5'', Tsena = PInt 1000\<rparr>"

definition world_int_price :: "('s, 'p) world" where
  "world_int_price =
     world_ok\<lparr>offer_ids_reply := (\<lambda>n campaign_id token. Inr [''8'', ''8'']),
              download_reply := (\<lambda>n. Inr [row_int_price])\<rparr>"

definition world_prices_down :: "('s, 'p) world" where
  "world_prices_down =
     world_ok\<lparr>offer_ids_reply := (\<lambda>n campaign_id token. Inr [''63433'', ''63433'']),
              price_reply := (\<lambda>n prices campaign_id token. Inl ReadTimeout)\<rparr>"

section \<open>Properties of divide\<close>

lemma py_slice_chunk:
  assumes "0 \<le> i" "0 < n"
  shows "py_slice lst i (i + n) = take (nat n) (drop (nat i) lst)"
proof -
  have "min (length lst) (nat (i + n)) - min (length lst) (nat i) = min (length lst - nat i) (nat n)"
    using assms by (auto simp: min_def nat_add_distrib)
  then show ?thesis
    using assms by (simp add: py_slice_def slice_index_def Let_def min_def)
qed

lemma concat_range_up:
  "0 < n \<Longrightarrow> 0 \<le> i \<Longrightarrow>
   concat (map (\<lambda>j. take (nat n) (drop (nat j) lst)) (range_up i (int (length lst)) n))
     = drop (nat i) lst"
proof (induction i "int (length lst)" n rule: range_up.induct)
  case (1 i step)
  show ?case
  proof (cases "i < int (length lst)")
    case True
    have "concat (map (\<lambda>j. take (nat step) (drop (nat j) lst)) (range_up (i + step) (int (length lst)) step))
            = drop (nat (i + step)) lst"
      using 1 True by simp
    moreover have "nat (i + step) = nat step + nat i"
      using 1 by (simp add: nat_add_distrib)
    ultimately show ?thesis
      using 1 True
      by (subst range_up.simps) (simp add: drop_drop [symmetric] del: drop_drop)
  next
    case False
    then show ?thesis
      by (subst range_up.simps) simp
  qed
qed

lemma range_up_nonneg:
  "0 \<le> i \<Longrightarrow> \<forall>j \<in> set (range_up i stop n). 0 \<le> j \<and> j < stop"
proof (induction i stop n rule: range_up.induct)
  case (1 i stop step)
  show ?case
  proof (cases "0 < step \<and> i < stop")
    case True
    then show ?thesis using 1 by (subst range_up.simps) auto
  next
    case False
    then show ?thesis by (subst range_up.simps) auto
  qed
qed

lemma length_range_up:
  "0 < n \<Longrightarrow> int (length (range_up i stop n)) = max 0 ((stop - i + n - 1) div n)"
proof (induction i stop n rule: range_up.induct)
  case (1 i stop step)
  show ?case
  proof (cases "i < stop")
    case True
    have "(stop - i + step - 1) div step = (stop - i - 1) div step + 1"
      using 1(2) by (metis diff_add_eq div_add_self2 less_irrefl)
    moreover have "0 \<le> (stop - i - 1) div step"
      using True 1(2) by (simp add: pos_imp_zdiv_nonneg_iff)
    moreover have "stop - (i + step) + step - 1 = stop - i - 1" by simp
    ultimately show ?thesis
      using 1 True by (subst range_up.simps) simp
  next
    case False
    then have "(stop - i + step - 1) div step \<le> 0"
      using 1(2) by (simp add: leI pos_imp_zdiv_pos_iff)
    with False show ?thesis
      by (subst range_up.simps) simp
  qed
qed

lemma butlast_range_up:
  "0 < n \<Longrightarrow> \<forall>j \<in> set (butlast (range_up i stop n)). j + n < stop"
proof (induction i stop n rule: range_up.induct)
  case (1 i stop step)
  show ?case
  proof (cases "i < stop")
    case True
    show ?thesis
    proof (cases "i + step < stop")
      case True
      then have "range_up (i + step) stop step \<noteq> []"
        using 1(2) by (subst range_up.simps) simp
      then show ?thesis
        using 1 \<open>i < stop\<close> True by (subst range_up.simps) auto
    next
      case False
      then have "range_up (i + step) stop step = []"
        by (subst range_up.simps) simp
      then show ?thesis
        using 1 \<open>i < stop\<close> by (subst range_up.simps) auto
    qed
  next
    case False
    then show ?thesis by (subst range_up.simps) simp
  qed
qed


lemma divide_positive:
  "0 < n \<Longrightarrow>
   divide S n = Inr (map (\<lambda>j. take (nat n) (drop (nat j) S)) (range_up 0 (int (length S)) n))"
  using range_up_nonneg [of 0 "int (length S)" n]
  by (simp add: divide_def py_range_def py_slice_chunk)

text \<open>
  Claim C8. For a positive chunk size \<open>n\<close>, \<open>divide\<close> returns chunks whose concatenation
  is the input; every chunk is non-empty and at most \<open>n\<close> long; the number of chunks is
  the ceiling of \<open>length S / n\<close>, written \<open>(length S + n - 1) div n\<close>; and every chunk but
  the last has exactly \<open>n\<close> elements.
\<close>

theorem divide_chunks:
  assumes "0 < n"
  shows "\<exists>cs. divide S n = Inr cs \<and> concat cs = S
           \<and> (\<forall>c \<in> set cs. 0 < length c \<and> int (length c) \<le> n)
           \<and> int (length cs) = (int (length S) + n - 1) div n
           \<and> (\<forall>c \<in> set (butlast cs). int (length c) = n)"
proof -
  let ?is = "range_up 0 (int (length S)) n"
  let ?f = "\<lambda>j. take (nat n) (drop (nat j) S)"
  have cs: "divide S n = Inr (map ?f ?is)"
    using assms by (rule divide_positive)
  have cat: "concat (map ?f ?is) = S"
    using concat_range_up [of n 0 S] assms by simp
  have len: "\<forall>c \<in> set (map ?f ?is). 0 < length c \<and> int (length c) \<le> n"
    using range_up_nonneg [of 0 "int (length S)" n] assms by auto
  have "0 \<le> (int (length S) + n - 1) div n"
    using assms by (simp add: pos_imp_zdiv_nonneg_iff)
  then have cnt: "int (length (map ?f ?is)) = (int (length S) + n - 1) div n"
    using length_range_up [of n 0 "int (length S)"] assms by simp
  have "\<forall>j \<in> set (butlast ?is). int (length (?f j)) = n"
  proof
    fix j assume j: "j \<in> set (butlast ?is)"
    then have "j + n < int (length S)"
      using butlast_range_up [of n 0 "int (length S)"] assms by blast
    moreover have "0 \<le> j"
      using in_set_butlastD [OF j] range_up_nonneg [of 0 "int (length S)" n] by simp
    ultimately show "int (length (?f j)) = n"
      using assms by simp
  qed
  then have full: "\<forall>c \<in> set (butlast (map ?f ?is)). int (length c) = n"
    by (simp add: map_butlast [symmetric])
  show ?thesis
    using cs cat len cnt full by blast
qed

theorem divide_chunks_witness:
  "(0::int) < 2
   \<and> (\<exists>cs. divide [1, 2, 3, 4, 5 :: nat] 2 = Inr cs \<and> concat cs = [1, 2, 3, 4, 5]
          \<and> (\<forall>c \<in> set cs. 0 < length c \<and> int (length c) \<le> 2)
          \<and> int (length cs) = (int (length [1, 2, 3, 4, 5 :: nat]) + 2 - 1) div 2
          \<and> (\<forall>c \<in> set (butlast cs). int (length c) = 2))"
proof -
  have h: "(0::int) < 2" by simp
  show ?thesis
    using h divide_chunks [OF h, of "[1, 2, 3, 4, 5 :: nat]"] by blast
qed

text \<open>
  Claim C9. With chunk size 0 the call \<^verbatim>\<open>range(0, len(lst), 0)\<close> raises \<^verbatim>\<open>ValueError\<close>; with
  a negative chunk size the range is empty and \<open>divide\<close> produces no chunk and no error.
\<close>

theorem divide_zero_negative:
  "divide S 0 = Inl ValueError \<and> (n < 0 \<longrightarrow> divide S n = Inr [])"
  by (simp add: divide_def py_range_def range_down.simps)

theorem divide_zero_negative_witness:
  "divide [1, 2, 3 :: nat] 0 = Inl ValueError \<and> (- 2 :: int) < 0
   \<and> divide [1, 2, 3 :: nat] (- 2) = Inr []"
  using divide_zero_negative [of "[1, 2, 3 :: nat]" "- 2"] by simp

section \<open>Properties of price_conversion\<close>

lemma split_first: "split sep s \<noteq> [] \<and> hd (split sep s) = takeWhile (\<lambda>c. c \<noteq> sep) s"
  by (induction s) (auto split: list.splits)

lemma price_conversion_string:
  "price_conversion (PStr s) = Inr (filter is_digit (takeWhile (\<lambda>c. c \<noteq> CHR ''.'') s))"
  using split_first [of "CHR ''.''" s]
  by (cases "split (CHR ''.'') s") (simp_all add: re_sub_non_digits_def)

lemma price_conversion_digits:
  "price_conversion (PStr s) = Inr r \<Longrightarrow> \<forall>c \<in> set r. is_digit c"
  by (auto simp del: price_conversion.simps simp add: price_conversion_string)

text \<open>
  Claim C7. On a string, \<open>price_conversion\<close> returns the digits of the prefix before the first
  "." (the two lemmas above). On a non-string the claim and the docstring
  (\<^verbatim>\<open>price = 1000\<close> gives \<^verbatim>\<open>TypeError: expected string or bytes\<close>) announce a \<^verbatim>\<open>TypeError\<close>;
  the code calls \<^verbatim>\<open>price.split\<close> first, which an integer does not have, so the docstring's own
  input gives \<^verbatim>\<open>AttributeError\<close>.
\<close>

theorem price_conversion_int_attribute_error:
  "price_conversion (PInt 1000) = Inl AttributeError
   \<and> price_conversion (PInt 1000) \<noteq> Inl TypeError"
  by simp

section \<open>Properties of the reconciliation loops\<close>

lemma seller_stocks_rows_scheme:
  "seller_stocks_rows rows stocks ids = stocks_rows seller_stock_entry rows stocks ids"
  by (induction rows arbitrary: stocks ids)
     (simp_all add: key_def seller_stock_entry_def split: sum.splits)

lemma market_stocks_rows_scheme:
  "market_stocks_rows wh date rows stocks ids = stocks_rows (market_stock_entry wh date) rows stocks ids"
  by (induction rows arbitrary: stocks ids) (simp_all add: key_def split: sum.splits)

lemma seller_stocks_missing_eq:
  "seller_stocks_missing ids stocks = stocks @ map (\<lambda>oid. seller_stock_entry oid 0) ids"
  by (induction ids arbitrary: stocks) (simp_all add: seller_stock_entry_def)

lemma market_stocks_missing_eq:
  "market_stocks_missing wh date ids stocks = stocks @ map (\<lambda>oid. market_stock_entry wh date oid 0) ids"
  by (induction ids arbitrary: stocks) simp_all

lemma stocks_rows_collect:
  "stocks_rows entry rows stocks ids =
     (case collect stock_count (matched_rows ids rows) of
        Inl e \<Rightarrow> Inl e
      | Inr ns \<Rightarrow>
          Inr (stocks @ map2 entry (map key (matched_rows ids rows)) ns, remaining_ids ids rows))"
proof (induction rows arbitrary: stocks ids)
  case Nil
  show ?case by simp
next
  case (Cons w ws)
  show ?case
  proof (cases "key w \<in> set ids")
    case False
    then show ?thesis using Cons.IH [of stocks ids] by (simp cong: sum.case_cong)
  next
    case True
    show ?thesis
    proof (cases "stock_count w")
      case (Inl e)
      with True show ?thesis by simp
    next
      case (Inr n)
      with True show ?thesis
        using Cons.IH [of "stocks @ [entry (key w) n]" "remove1 (key w) ids"]
        by (simp split: sum.splits cong: sum.case_cong)
    qed
  qed
qed

lemma collect_length: "collect f xs = Inr ys \<Longrightarrow> length ys = length xs"
  by (induction xs arbitrary: ys) (auto split: sum.splits)


lemma collect_Inr_iff: "(\<exists>ys. collect f xs = Inr ys) \<longleftrightarrow> (\<forall>x \<in> set xs. \<exists>y. f x = Inr y)"
  by (induction xs) (auto split: sum.splits)

lemma collect_Inl: "collect f xs = Inl e \<Longrightarrow> \<exists>x \<in> set xs. f x = Inl e"
  by (induction xs) (auto split: sum.splits)

lemma mset_matched_remaining:
  "mset (map key (matched_rows ids rows)) + mset (remaining_ids ids rows) = mset ids"
proof (induction rows arbitrary: ids)
  case Nil
  show ?case by simp
next
  case (Cons w ws)
  show ?case
  proof (cases "key w \<in> set ids")
    case True
    then show ?thesis using Cons.IH [of "remove1 (key w) ids"] by simp
  next
    case False
    then show ?thesis using Cons.IH [of ids] by simp
  qed
qed

lemma first_rows_Cons:
  "first_rows ids (w # ws) =
     (if key w \<in> set ids then w # first_rows (removeAll (key w) ids) ws else first_rows ids ws)"
proof -
  let ?P = "\<lambda>rows i. key (rows ! i) \<in> set ids \<and> key (rows ! i) \<notin> set (map key (take i rows))"
  let ?Q = "\<lambda>i. key (ws ! i) \<in> set ids \<and> key (ws ! i) \<noteq> key w \<and> key (ws ! i) \<notin> set (map key (take i ws))"
  have upt: "[0..<length (w # ws)] = 0 # map Suc [0..<length ws]"
    by (simp add: upt_conv_Cons map_Suc_upt del: upt_Suc)
  have tail: "map (\<lambda>i. (w # ws) ! i) (filter (?P (w # ws)) (map Suc [0..<length ws]))
                = map (\<lambda>i. ws ! i) (filter ?Q [0..<length ws])"
    by (simp add: filter_map comp_def)
  have Q1: "key w \<in> set ids \<Longrightarrow> map (\<lambda>i. ws ! i) (filter ?Q [0..<length ws]) = first_rows (removeAll (key w) ids) ws"
    unfolding first_rows_def by (rule arg_cong [where f = "map _"], rule filter_cong) auto
  have Q2: "key w \<notin> set ids \<Longrightarrow> map (\<lambda>i. ws ! i) (filter ?Q [0..<length ws]) = first_rows ids ws"
    unfolding first_rows_def by (rule arg_cong [where f = "map _"], rule filter_cong) auto
  show ?thesis
    unfolding first_rows_def [of ids "w # ws"] upt
    using tail Q1 Q2 by (simp del: upt_Suc map_map)
qed

lemma matched_rows_first:
  "distinct ids \<Longrightarrow> matched_rows ids rows = first_rows ids rows"
proof (induction rows arbitrary: ids)
  case Nil
  show ?case by (simp add: first_rows_def)
next
  case (Cons w ws)
  then show ?case
    by (simp add: first_rows_Cons distinct_remove1_removeAll distinct_removeAll)
qed

lemma remaining_ids_unmatched:
  "distinct ids \<Longrightarrow> remaining_ids ids rows = unmatched_ids ids rows"
proof (induction rows arbitrary: ids)
  case Nil
  show ?case by (simp add: unmatched_ids_def)
next
  case (Cons w ws)
  show ?case
  proof (cases "key w \<in> set ids")
    case True
    have "remaining_ids (remove1 (key w) ids) ws = unmatched_ids (removeAll (key w) ids) ws"
      using Cons by (simp add: distinct_remove1_removeAll distinct_removeAll)
    also have "\<dots> = unmatched_ids ids (w # ws)"
      by (auto simp: unmatched_ids_def removeAll_filter_not_eq intro: filter_cong)
    finally show ?thesis using True by simp
  next
    case False
    have "unmatched_ids ids ws = unmatched_ids ids (w # ws)"
      unfolding unmatched_ids_def using False by (auto intro: filter_cong)
    then show ?thesis using False Cons by simp
  qed
qed

lemma seller_prices_rows_collect:
  "seller_prices_rows rows prices ids =
     (case collect (\<lambda>w. price_conversion (Tsena w)) (matching_rows ids rows) of
        Inl e \<Rightarrow> Inl e
      | Inr ps \<Rightarrow> Inr (prices @ map2 seller_price_entry (map key (matching_rows ids rows)) ps))"
proof (induction rows arbitrary: prices)
  case Nil
  show ?case by (simp add: matching_rows_def)
next
  case (Cons w ws)
  show ?case
  proof (cases "key w \<in> set ids")
    case False
    then show ?thesis
      using Cons.IH [of prices] by (simp add: matching_rows_def key_def cong: sum.case_cong)
  next
    case True
    show ?thesis
    proof (cases "price_conversion (Tsena w)")
      case (Inl e)
      with True show ?thesis by (simp add: matching_rows_def key_def)
    next
      case (Inr p)
      with True show ?thesis
        using Cons.IH [of "prices @ [seller_price_entry (key w) p]"]
        by (simp add: matching_rows_def key_def seller_price_entry_def
                 split: sum.splits cong: sum.case_cong)
    qed
  qed
qed



lemma map2_nth:
  "length xs = length ys \<Longrightarrow> i < length xs \<Longrightarrow> map2 f xs ys ! i = f (xs ! i) (ys ! i)"
  by simp





lemma create_stocks_eq:
  "seller_create_stocks rows ids =
     (case collect stock_count (matched_rows ids rows) of
        Inl e \<Rightarrow> Inl e
      | Inr ns \<Rightarrow>
          Inr (map2 seller_stock_entry (map key (matched_rows ids rows)) ns
                 @ map (\<lambda>oid. seller_stock_entry oid 0) (remaining_ids ids rows),
               remaining_ids ids rows))"
  "market_create_stocks rows ids wh date =
     (case collect stock_count (matched_rows ids rows) of
        Inl e \<Rightarrow> Inl e
      | Inr ns \<Rightarrow>
          Inr (map2 (market_stock_entry wh date) (map key (matched_rows ids rows)) ns
                 @ map (\<lambda>oid. market_stock_entry wh date oid 0) (remaining_ids ids rows),
               remaining_ids ids rows))"
  by (simp_all add: seller_create_stocks_def market_create_stocks_def
        seller_stocks_rows_scheme market_stocks_rows_scheme stocks_rows_collect
        seller_stocks_missing_eq market_stocks_missing_eq split: sum.splits)

lemma map2_entry_keys:
  "length ks = length ns \<Longrightarrow> map offer_id (map2 seller_stock_entry ks ns) = ks"
  "length ks = length ns \<Longrightarrow> map sku (map2 (market_stock_entry wh date) ks ns) = ks"
  by (induction ks ns rule: list_induct2)
     (simp_all add: seller_stock_entry_def market_stock_entry_def)

lemma zero_entry_keys:
  "map offer_id (map (\<lambda>oid. seller_stock_entry oid 0) xs) = xs"
  "map sku (map (\<lambda>oid. market_stock_entry wh date oid 0) xs) = xs"
  by (simp_all add: seller_stock_entry_def market_stock_entry_def comp_def)

lemma stock_ids_cover:
  assumes "distinct ids" "out_ids = map key (matched_rows ids rows) @ remaining_ids ids rows"
  shows "mset out_ids = mset ids \<and> distinct out_ids
         \<and> (\<forall>w \<in> set rows. key w \<notin> set ids \<longrightarrow> key w \<notin> set out_ids)"
proof -
  have m: "mset out_ids = mset ids"
    using assms(2) mset_matched_remaining [of ids rows] by simp
  then have "distinct out_ids"
    using assms(1) by (metis mset_eq_imp_distinct_iff)
  moreover have "set out_ids = set ids"
    using m by (rule mset_eq_setD)
  ultimately show ?thesis using m by blast
qed

text \<open>
  Claim C1. For a duplicate-free catalog \<open>ids\<close>, whenever \<open>create_stocks\<close> returns, its result
  is the records of the matched rows, in row order, followed by a zero-stock record for every
  catalog id that is the code of no row, in catalog order; the offer ids of the result are
  exactly the catalog ids, each once; a row whose code is not in the catalog contributes no
  record. The matched rows are the rows whose code is in the catalog and was not the code of
  an earlier row. \<open>create_stocks\<close> returns whenever the quantity of every matched row can be
  converted. The statement covers seller.py and market.py.
\<close>

theorem create_stocks_covers_catalog:
  assumes "distinct ids"
  shows
    "(seller_create_stocks rows ids = Inr (out, ids') \<longrightarrow>
        (\<exists>ns. collect stock_count (first_rows ids rows) = Inr ns
             \<and> out = map2 seller_stock_entry (map key (first_rows ids rows)) ns
                       @ map (\<lambda>oid. seller_stock_entry oid 0) (unmatched_ids ids rows))
        \<and> mset (map offer_id out) = mset ids \<and> distinct (map offer_id out)
        \<and> (\<forall>w \<in> set rows. key w \<notin> set ids \<longrightarrow> key w \<notin> set (map offer_id out)))
   \<and> (market_create_stocks rows ids wh date = Inr (mout, mids') \<longrightarrow>
        (\<exists>ns. collect stock_count (first_rows ids rows) = Inr ns
             \<and> mout = map2 (market_stock_entry wh date) (map key (first_rows ids rows)) ns
                        @ map (\<lambda>oid. market_stock_entry wh date oid 0) (unmatched_ids ids rows))
        \<and> mset (map sku mout) = mset ids \<and> distinct (map sku mout)
        \<and> (\<forall>w \<in> set rows. key w \<notin> set ids \<longrightarrow> key w \<notin> set (map sku mout)))
   \<and> ((\<forall>w \<in> set (first_rows ids rows). \<exists>n. stock_count w = Inr n) \<longrightarrow>
        (\<exists>out ids'. seller_create_stocks rows ids = Inr (out, ids'))
        \<and> (\<exists>mout mids'. market_create_stocks rows ids wh date = Inr (mout, mids')))"
proof (intro conjI impI)
  note fr = matched_rows_first [OF assms, of rows] remaining_ids_unmatched [OF assms, of rows]
  {
    assume r: "seller_create_stocks rows ids = Inr (out, ids')"
    then obtain ns where ns: "collect stock_count (matched_rows ids rows) = Inr ns"
      and out: "out = map2 seller_stock_entry (map key (matched_rows ids rows)) ns
                       @ map (\<lambda>oid. seller_stock_entry oid 0) (remaining_ids ids rows)"
      by (auto simp: create_stocks_eq split: sum.splits)
    show "\<exists>ns. collect stock_count (first_rows ids rows) = Inr ns
             \<and> out = map2 seller_stock_entry (map key (first_rows ids rows)) ns
                       @ map (\<lambda>oid. seller_stock_entry oid 0) (unmatched_ids ids rows)"
      using ns out fr by auto
    have "map offer_id out = map key (matched_rows ids rows) @ remaining_ids ids rows"
      using out collect_length [OF ns] by (simp add: map2_entry_keys zero_entry_keys del: map_map)
    from stock_ids_cover [OF assms this]
    show "mset (map offer_id out) = mset ids" "distinct (map offer_id out)"
      "\<forall>w \<in> set rows. key w \<notin> set ids \<longrightarrow> key w \<notin> set (map offer_id out)"
      by blast+
  }
  {
    assume r: "market_create_stocks rows ids wh date = Inr (mout, mids')"
    then obtain ns where ns: "collect stock_count (matched_rows ids rows) = Inr ns"
      and out: "mout = map2 (market_stock_entry wh date) (map key (matched_rows ids rows)) ns
                       @ map (\<lambda>oid. market_stock_entry wh date oid 0) (remaining_ids ids rows)"
      by (auto simp: create_stocks_eq split: sum.splits)
    show "\<exists>ns. collect stock_count (first_rows ids rows) = Inr ns
             \<and> mout = map2 (market_stock_entry wh date) (map key (first_rows ids rows)) ns
                       @ map (\<lambda>oid. market_stock_entry wh date oid 0) (unmatched_ids ids rows)"
      using ns out fr by auto
    have "map sku mout = map key (matched_rows ids rows) @ remaining_ids ids rows"
      using out collect_length [OF ns] by (simp add: map2_entry_keys zero_entry_keys del: map_map)
    from stock_ids_cover [OF assms this]
    show "mset (map sku mout) = mset ids" "distinct (map sku mout)"
      "\<forall>w \<in> set rows. key w \<notin> set ids \<longrightarrow> key w \<notin> set (map sku mout)"
      by blast+
  }
  {
    assume "\<forall>w \<in> set (first_rows ids rows). \<exists>n. stock_count w = Inr n"
    then obtain ns where "collect stock_count (matched_rows ids rows) = Inr ns"
      using collect_Inr_iff [of stock_count "matched_rows ids rows"] fr by auto
    then show "\<exists>out ids'. seller_create_stocks rows ids = Inr (out, ids')"
      "\<exists>mout mids'. market_create_stocks rows ids wh date = Inr (mout, mids')"
      by (simp_all add: create_stocks_eq)
  }
qed

lemmas example_defs = stock_count_def market_stock_entry_def seller_stock_entry_def
  str_nat.simps digit_char_def key_def row_63433_def row_555_def row_7_def row_8_bad_def

theorem create_stocks_covers_catalog_witness:
  "distinct [''99999'', ''63433'']
   \<and> seller_create_stocks [row_63433, row_555, row_63433] [''99999'', ''63433'']
       = Inr ([\<lparr>offer_id = ''63433'', stock = 100\<rparr>, \<lparr>offer_id = ''99999'', stock = 0\<rparr>],
              [''99999''])
   \<and> mset (map offer_id [\<lparr>offer_id = ''63433'', stock = 100\<rparr>, \<lparr>offer_id = ''99999'', stock = 0\<rparr>])
       = mset [''99999'', ''63433'']
   \<and> key row_555 \<notin> set [''99999'', ''63433'']
   \<and> key row_555 \<notin> set (map offer_id [\<lparr>offer_id = ''63433'', stock = 100\<rparr>,
                                           \<lparr>offer_id = ''99999'', stock = 0\<rparr>])
   \<and> (\<exists>mout mids'. market_create_stocks [row_63433, row_555, row_63433] [''99999'', ''63433'']
                        ''W'' ''2025-01-20T17:14:52Z'' = Inr (mout, mids'))"
proof -
  let ?rows = "[row_63433, row_555, row_63433]"
  let ?ids = "[''99999'', ''63433'']"
  let ?out = "[\<lparr>offer_id = ''63433'', stock = 100\<rparr>, \<lparr>offer_id = ''99999'', stock = 0\<rparr>]"
  have d: "distinct ?ids" by simp
  have r: "seller_create_stocks ?rows ?ids = Inr (?out, [''99999''])"
    by (simp add: seller_create_stocks_def example_defs)
  have f: "first_rows ?ids ?rows = [row_63433]"
    by (simp add: first_rows_def example_defs upt_rec)
  have q: "\<forall>w \<in> set (first_rows ?ids ?rows). \<exists>n. stock_count w = Inr n"
    by (simp add: f) (simp add: example_defs)
  have k: "key row_555 \<notin> set ?ids" "row_555 \<in> set ?rows"
    by (simp_all add: example_defs)
  show ?thesis
    using create_stocks_covers_catalog
            [OF d, of ?rows ?out "[''99999'']" "''W''" "''2025-01-20T17:14:52Z''"] d r q k
    by blast
qed























lemma stock_count_float:
  assumes "Kolichestvo w = PFloat text x" "text \<noteq> ''>10''" "text \<noteq> ''1''"
  shows "stock_count w = int_of_float x"
  using assms by (simp add: stock_count_def)








text \<open>
  Claim C10, amended. When \<open>create_stocks\<close> returns on a duplicate-free list \<open>offer_ids\<close>,
  the list holds exactly the original ids that are the code of no row, each once and in their
  original order: the ids matched by some row, and only these, have been removed. The rows
  are only read, so the list is the only input that changes; the model returns its final
  contents next to the result. The statement covers seller.py and market.py.
\<close>

theorem create_stocks_removes_matched_ids:
  assumes "distinct ids"
  shows
    "(seller_create_stocks rows ids = Inr (out, ids') \<longrightarrow>
        ids' = unmatched_ids ids rows \<and> distinct ids'
        \<and> set ids' = set ids - set (map key rows))
   \<and> (market_create_stocks rows ids wh date = Inr (mout, mids') \<longrightarrow>
        mids' = unmatched_ids ids rows \<and> distinct mids'
        \<and> set mids' = set ids - set (map key rows))"
proof -
  have u: "distinct (unmatched_ids ids rows)"
    "set (unmatched_ids ids rows) = set ids - set (map key rows)"
    using assms by (auto simp: unmatched_ids_def)
  have "seller_create_stocks rows ids = Inr (out, ids') \<Longrightarrow> ids' = unmatched_ids ids rows"
    using remaining_ids_unmatched [OF assms, of rows]
    by (auto simp: create_stocks_eq split: sum.splits)
  moreover
  have "market_create_stocks rows ids wh date = Inr (mout, mids') \<Longrightarrow> mids' = unmatched_ids ids rows"
    using remaining_ids_unmatched [OF assms, of rows]
    by (auto simp: create_stocks_eq split: sum.splits)
  ultimately show ?thesis using u by blast
qed

theorem create_stocks_removes_matched_ids_witness:
  "distinct [''99999'', ''63433'', ''7'']
   \<and> seller_create_stocks [row_63433, row_555] [''99999'', ''63433'', ''7'']
        = Inr ([\<lparr>offer_id = ''63433'', stock = 100\<rparr>, \<lparr>offer_id = ''99999'', stock = 0\<rparr>,
                \<lparr>offer_id = ''7'', stock = 0\<rparr>], [''99999'', ''7''])
   \<and> [''99999'', ''7''] = unmatched_ids [''99999'', ''63433'', ''7''] [row_63433, row_555]
   \<and> set [''99999'', ''7'']
        = set [''99999'', ''63433'', ''7''] - set (map key [row_63433, row_555])"
proof -
  have d: "distinct [''99999'', ''63433'', ''7'']" by simp
  have r: "seller_create_stocks [row_63433, row_555] [''99999'', ''63433'', ''7'']
        = Inr ([\<lparr>offer_id = ''63433'', stock = 100\<rparr>, \<lparr>offer_id = ''99999'', stock = 0\<rparr>,
                \<lparr>offer_id = ''7'', stock = 0\<rparr>], [''99999'', ''7''])"
    by (simp add: seller_create_stocks_def example_defs)
  show ?thesis
    using create_stocks_removes_matched_ids [OF d, of "[row_63433, row_555]" _ "[''99999'', ''7'']"] d r
    by blast
qed

text \<open>
  Claim C10 as stated, for any list: with the catalog \<open>["7", "7"]\<close> and one row of code "7",
  \<^verbatim>\<open>list.remove\<close> deletes one occurrence only. The list left behind still contains "7", an id
  matched by a row, while no original id is the code of no row; the result holds two records
  for "7".
\<close>

theorem create_stocks_duplicate_ids_counterexample:
  "seller_create_stocks [row_7] [''7'', ''7'']
     = Inr ([\<lparr>offer_id = ''7'', stock = 0\<rparr>, \<lparr>offer_id = ''7'', stock = 0\<rparr>], [''7''])
   \<and> ''7'' \<in> set (map key [row_7])
   \<and> unmatched_ids [''7'', ''7''] [row_7] = []"
  by (simp add: seller_create_stocks_def unmatched_ids_def example_defs)

lemma create_prices_nothing_left:
  assumes "distinct ids" "seller_create_stocks rows ids = Inr (stocks, ids')"
  shows "seller_create_prices rows ids' = Inr []"
proof -
  have "ids' = unmatched_ids ids rows"
    using remaining_ids_unmatched [OF assms(1), of rows] assms(2)
    by (auto simp: create_stocks_eq split: sum.splits)
  then have "matching_rows ids' rows = []"
    by (auto simp: matching_rows_def unmatched_ids_def filter_empty_conv)
  then show ?thesis
    by (simp add: seller_create_prices_def seller_prices_rows_collect)
qed



lemmas price_eval_defs = seller_create_prices_def market_create_prices_def matching_rows_def
  re_sub_non_digits_def is_digit_def py_int_of_str_def strip_def is_space_def int_of_unsigned_def
  digit_val_def int_max_str_digits_def seller_price_entry_def market_price_entry_def


section \<open>Properties of the main functions\<close>

lemma io_bind_lift_Inr [simp]: "io_bind (lift (Inr x)) f = f x"
  by (rule ext) (simp add: io_bind_def lift_def)

lemma io_bind_lift_Inl [simp]: "io_bind (lift (Inl e)) f = lift (Inl e)"
  by (rule ext) (simp add: io_bind_def lift_def)

lemma io_bind_returns [simp]: "io_bind (returns x) f = f x"
  by (rule ext) (simp add: io_bind_def returns_def)

lemma io_bind_assoc: "io_bind (io_bind m f) g = io_bind m (\<lambda>x. io_bind (f x) g)"
  by (rule ext) (simp add: io_bind_def split: prod.splits sum.splits)

lemma io_bind_Inr: "m tr = (Inr x, tr') \<Longrightarrow> io_bind m f tr = f x tr'"
  by (simp add: io_bind_def)

lemma io_bind_Inl: "m tr = (Inl e, tr') \<Longrightarrow> io_bind m f tr = (Inl e, tr')"
  by (simp add: io_bind_def)

lemma appends_onlyD:
  "appends_only Q m \<Longrightarrow> \<exists>evs. snd (m tr) = tr @ evs \<and> list_all Q evs"
  by (simp add: appends_only_def)

lemma appends_only_returns: "appends_only Q (returns x)"
  by (simp add: appends_only_def returns_def)

lemma appends_only_lift: "appends_only Q (lift r)"
  by (simp add: appends_only_def lift_def)

lemma appends_only_bind:
  assumes "appends_only Q m" "\<And>x. appends_only Q (f x)"
  shows "appends_only Q (io_bind m f)"
  unfolding appends_only_def
proof
  fix tr
  obtain r tr' where m: "m tr = (r, tr')" by (cases "m tr")
  obtain evs where evs: "tr' = tr @ evs" "list_all Q evs"
    using appends_onlyD [OF assms(1), of tr] m by auto
  show "\<exists>evs. snd (io_bind m f tr) = tr @ evs \<and> list_all Q evs"
  proof (cases r)
    case (Inl e)
    then show ?thesis using m evs by (simp add: io_bind_def)
  next
    case (Inr x)
    obtain evs' where "snd (f x tr') = tr' @ evs'" "list_all Q evs'"
      using appends_onlyD [OF assms(2), of x tr'] by auto
    then show ?thesis using m evs Inr by (simp add: io_bind_def)
  qed
qed

lemma appends_only_prod:
  "(\<And>a b. appends_only Q (f a b)) \<Longrightarrow> appends_only Q (case x of (a, b) \<Rightarrow> f a b)"
  by (cases x) simp

lemma appends_only_for_each:
  "(\<And>x. appends_only Q (body x)) \<Longrightarrow> appends_only Q (for_each xs body)"
  by (induction xs) (simp_all add: appends_only_returns appends_only_bind)

lemma appends_only_try:
  assumes "appends_only Q body" "\<And>e. appends_only Q (handler e)"
  shows "appends_only Q (try_except body handler)"
  unfolding appends_only_def
proof
  fix tr
  obtain r tr' where m: "body tr = (r, tr')" by (cases "body tr")
  obtain evs where evs: "tr' = tr @ evs" "list_all Q evs"
    using appends_onlyD [OF assms(1), of tr] m by auto
  show "\<exists>evs. snd (try_except body handler tr) = tr @ evs \<and> list_all Q evs"
  proof (cases r)
    case (Inr x)
    then show ?thesis using m evs by (simp add: try_except_def)
  next
    case (Inl e)
    obtain evs' where "snd (handler e tr') = tr' @ evs'" "list_all Q evs'"
      using appends_onlyD [OF assms(2), of e tr'] by auto
    then show ?thesis using m evs Inl by (simp add: try_except_def)
  qed
qed

lemma appends_only_calls:
  "Q (GetOfferIds c t) \<Longrightarrow> appends_only Q (get_offer_ids w c t)"
  "Q DownloadStock \<Longrightarrow> appends_only Q (download_stock w)"
  "Q (UpdateStocks s c t) \<Longrightarrow> appends_only Q (update_stocks w s c t)"
  "Q (UpdatePrice p c t) \<Longrightarrow> appends_only Q (update_price w p c t)"
  "Q (Print (report_of e)) \<Longrightarrow> appends_only Q (main_handler e)"
  by (simp_all add: appends_only_def get_offer_ids_def download_stock_def update_stocks_def
        update_price_def main_handler_def)

lemma appends_only_create_stocks_now: "appends_only Q (create_stocks_now w rows ids wh)"
  by (simp add: appends_only_def create_stocks_now_def)

lemmas appends_only_intros =
  appends_only_returns appends_only_lift appends_only_bind appends_only_prod
  appends_only_for_each appends_only_try appends_only_calls appends_only_create_stocks_now

lemma market_segment_calls:
  "appends_only (is_call_of c) (market_segment w rows c wh tok)"
  unfolding market_segment_def
  by (intro appends_only_intros) simp_all

lemma market_main_no_price:
  "appends_only (\<lambda>e. \<not> is_update_price e) (market_main cfg w)"
  unfolding market_main_def
  by (intro appends_only_intros) simp_all

lemma appends_only_filter:
  assumes "appends_only (\<lambda>e. \<not> P e) m"
  shows "filter P (snd (m tr)) = filter P tr"
proof -
  obtain evs where "snd (m tr) = tr @ evs" "list_all (\<lambda>e. \<not> P e) evs"
    using appends_onlyD [OF assms, of tr] by auto
  then show ?thesis by (simp add: list_all_iff)
qed

lemma market_main_segments:
  "market_main cfg w =
     io_bind (download_stock w) (\<lambda>rows.
       try_except
         (io_bind (market_segment w rows (campaign_fbs_id cfg) (warehouse_fbs_id cfg) (market_token cfg))
            (\<lambda>_. market_segment w rows (campaign_dbs_id cfg) (warehouse_dbs_id cfg) (market_token cfg)))
         main_handler)"
  by (simp add: market_main_def market_segment_def io_bind_assoc split_def)

lemma for_each_update_stocks_ok:
  "\<forall>n s. stocks_reply w n s c tok = Inr () \<Longrightarrow>
   for_each chunks (\<lambda>s. update_stocks w s c tok) tr
     = (Inr (), tr @ map (\<lambda>s. UpdateStocks s c tok) chunks)"
  by (induction chunks arbitrary: tr) (simp_all add: returns_def io_bind_def update_stocks_def)

lemma market_segment_ok:
  assumes "offer_ids_reply w (length tr) c tok = Inr ids"
    and "market_create_stocks rows ids wh (utcnow w (Suc (length tr))) = Inr (stocks, left)"
    and "divide stocks 2000 = Inr chunks"
    and "\<forall>n s. stocks_reply w n s c tok = Inr ()"
  shows "market_segment w rows c wh tok tr
           = (Inr (), tr @ GetOfferIds c tok # map (\<lambda>s. UpdateStocks s c tok) chunks)"
  using assms
  by (simp add: market_segment_def io_bind_def get_offer_ids_def create_stocks_now_def lift_def
        for_each_update_stocks_ok returns_def)

lemma try_main_handler:
  "try_except body main_handler tr =
     (case body tr of
        (Inl e, tr') \<Rightarrow> (Inr (), tr' @ [Print (report_of e)])
      | (Inr x, tr') \<Rightarrow> (Inr x, tr'))"
  by (simp add: try_except_def main_handler_def split: prod.splits sum.splits)

lemmas io_eval_defs = market_main_def seller_main_def io_bind_def try_except_def main_handler_def
  get_offer_ids_def download_stock_def update_stocks_def update_price_def create_stocks_now_def
  lift_def returns_def report_of_def upload_prices_def
  market_cfg_def seller_cfg_def world_ok_def world_fbs_down_def
  market_create_stocks_def seller_create_stocks_def market_create_prices_def seller_create_prices_def
  divide_def py_range_def range_up.simps py_slice_def slice_index_def

text \<open>
  Claim C5. No run of \<^verbatim>\<open>main\<close> in market.py issues a price update: \<^verbatim>\<open>upload_prices\<close> is only
  called, never awaited, so for every configuration and every world the trace of
  \<open>market_main\<close> holds no \<open>UpdatePrice\<close> event, for the FBS block and for the DBS block. The
  stock updates are issued: when the calls succeed, the trace is the download, then for each
  campaign its catalog request followed by one \<open>UpdateStocks\<close> call per chunk of 2000 records.
\<close>

theorem market_main_never_updates_prices:
  "filter is_update_price (snd (market_main cfg w [])) = []
   \<and> (download_reply w 0 = Inr rows
      \<and> offer_ids_reply w 1 (campaign_fbs_id cfg) (market_token cfg) = Inr ids1
      \<and> market_create_stocks rows ids1 (warehouse_fbs_id cfg) (utcnow w 2) = Inr (stocks1, left1)
      \<and> divide stocks1 2000 = Inr chunks1
      \<and> offer_ids_reply w (2 + length chunks1) (campaign_dbs_id cfg) (market_token cfg) = Inr ids2
      \<and> market_create_stocks rows ids2 (warehouse_dbs_id cfg) (utcnow w (3 + length chunks1))
          = Inr (stocks2, left2)
      \<and> divide stocks2 2000 = Inr chunks2
      \<and> (\<forall>n s c. stocks_reply w n s c (market_token cfg) = Inr ())
      \<longrightarrow> market_main cfg w []
            = (Inr (),
               [DownloadStock, GetOfferIds (campaign_fbs_id cfg) (market_token cfg)]
               @ map (\<lambda>s. UpdateStocks s (campaign_fbs_id cfg) (market_token cfg)) chunks1
               @ [GetOfferIds (campaign_dbs_id cfg) (market_token cfg)]
               @ map (\<lambda>s. UpdateStocks s (campaign_dbs_id cfg) (market_token cfg)) chunks2))"
proof (intro conjI impI)
  show "filter is_update_price (snd (market_main cfg w [])) = []"
    using appends_only_filter [OF market_main_no_price, of cfg w "[]"] by simp
next
  let ?tok = "market_token cfg"
  let ?fbs = "campaign_fbs_id cfg"
  let ?dbs = "campaign_dbs_id cfg"
  let ?tr1 = "DownloadStock # GetOfferIds ?fbs ?tok # map (\<lambda>s. UpdateStocks s ?fbs ?tok) chunks1"
  assume h: "download_reply w 0 = Inr rows
      \<and> offer_ids_reply w 1 ?fbs ?tok = Inr ids1
      \<and> market_create_stocks rows ids1 (warehouse_fbs_id cfg) (utcnow w 2) = Inr (stocks1, left1)
      \<and> divide stocks1 2000 = Inr chunks1
      \<and> offer_ids_reply w (2 + length chunks1) ?dbs ?tok = Inr ids2
      \<and> market_create_stocks rows ids2 (warehouse_dbs_id cfg) (utcnow w (3 + length chunks1))
          = Inr (stocks2, left2)
      \<and> divide stocks2 2000 = Inr chunks2
      \<and> (\<forall>n s c. stocks_reply w n s c ?tok = Inr ())"
  have d: "download_stock w [] = (Inr rows, [DownloadStock])"
    using h by (simp add: download_stock_def)
  have s1: "market_segment w rows ?fbs (warehouse_fbs_id cfg) ?tok [DownloadStock] = (Inr (), ?tr1)"
    using h market_segment_ok [where w = w and tr = "[DownloadStock]" and c = ?fbs and tok = ?tok
        and rows = rows and wh = "warehouse_fbs_id cfg"
        and ids = ids1 and stocks = stocks1 and left = left1 and chunks = chunks1]
    by (simp add: numeral_2_eq_2)
  have s2: "market_segment w rows ?dbs (warehouse_dbs_id cfg) ?tok ?tr1
      = (Inr (), ?tr1 @ GetOfferIds ?dbs ?tok # map (\<lambda>s. UpdateStocks s ?dbs ?tok) chunks2)"
    using h market_segment_ok [where w = w and tr = ?tr1 and c = ?dbs and tok = ?tok
        and rows = rows and wh = "warehouse_dbs_id cfg"
        and ids = ids2 and stocks = stocks2 and left = left2 and chunks = chunks2]
    by (simp add: numeral_3_eq_3)
  show "market_main cfg w []
            = (Inr (),
               [DownloadStock, GetOfferIds ?fbs ?tok]
               @ map (\<lambda>s. UpdateStocks s ?fbs ?tok) chunks1
               @ [GetOfferIds ?dbs ?tok]
               @ map (\<lambda>s. UpdateStocks s ?dbs ?tok) chunks2)"
    unfolding market_main_segments
    by (simp add: io_bind_Inr [where m = "download_stock w" and tr = "[]", OF d] try_main_handler
          io_bind_Inr [where m = "market_segment w rows ?fbs (warehouse_fbs_id cfg) ?tok"
                         and tr = "[DownloadStock]", OF s1] s2)
qed

text \<open>
  The body of \<open>upload_prices\<close> does update prices when it is run: the events are missing from
  \<open>market_main\<close> because the coroutine is never run, not because the body is empty.
\<close>

lemma upload_prices_body_updates:
  "snd (run_coroutine (upload_prices world_ok [row_63433] ''FBS'' ''token'') [])
     = [GetOfferIds ''FBS'' ''token'', UpdatePrice [market_price_entry ''63433'' 2240] ''FBS'' ''token'']"
  by (simp add: io_eval_defs example_defs price_eval_defs)

theorem market_main_never_updates_prices_witness:
  "market_main market_cfg world_ok []
     = (Inr (), [DownloadStock, GetOfferIds ''FBS'' ''token'',
          UpdateStocks [market_stock_entry ''W1'' ''2025-01-20T17:14:52Z'' ''63433'' 100,
                        market_stock_entry ''W1'' ''2025-01-20T17:14:52Z'' ''99999'' 0] ''FBS'' ''token'',
          GetOfferIds ''DBS'' ''token'',
          UpdateStocks [market_stock_entry ''W2'' ''2025-01-20T17:14:52Z'' ''63433'' 100,
                        market_stock_entry ''W2'' ''2025-01-20T17:14:52Z'' ''99999'' 0] ''DBS'' ''token''])
   \<and> filter is_update_price (snd (market_main market_cfg world_ok [])) = []"
proof -
  let ?date = "''2025-01-20T17:14:52Z''"
  let ?ids = "[''63433'', ''99999'']"
  let ?st = "\<lambda>wh. [market_stock_entry wh ?date ''63433'' 100, market_stock_entry wh ?date ''99999'' 0]"
  have c: "market_create_stocks [row_63433] ?ids wh ?date = Inr (?st wh, [''99999''])" for wh
    by (simp add: market_create_stocks_def example_defs)
  have d: "divide (?st wh) 2000 = Inr [?st wh]" for wh
    by (simp add: divide_def py_range_def range_up.simps py_slice_def slice_index_def)
  have h: "download_reply (world_ok :: (market_stock, market_price) world) 0 = Inr [row_63433]
      \<and> offer_ids_reply (world_ok :: (market_stock, market_price) world) 1
            (campaign_fbs_id market_cfg) (market_token market_cfg) = Inr ?ids
      \<and> market_create_stocks [row_63433] ?ids (warehouse_fbs_id market_cfg)
            (utcnow (world_ok :: (market_stock, market_price) world) 2) = Inr (?st ''W1'', [''99999''])
      \<and> divide (?st ''W1'') 2000 = Inr [?st ''W1'']
      \<and> offer_ids_reply (world_ok :: (market_stock, market_price) world) (2 + length [?st ''W1''])
            (campaign_dbs_id market_cfg) (market_token market_cfg) = Inr ?ids
      \<and> market_create_stocks [row_63433] ?ids (warehouse_dbs_id market_cfg)
            (utcnow (world_ok :: (market_stock, market_price) world) (3 + length [?st ''W1'']))
          = Inr (?st ''W2'', [''99999''])
      \<and> divide (?st ''W2'') 2000 = Inr [?st ''W2'']
      \<and> (\<forall>n s c. stocks_reply (world_ok :: (market_stock, market_price) world) n s c
                     (market_token market_cfg) = Inr ())"
    using c d by (simp add: world_ok_def market_cfg_def)
  show ?thesis
    using market_main_never_updates_prices
      [of market_cfg world_ok "[row_63433]" ?ids "?st ''W1''" "[''99999'']" "[?st ''W1'']"
          ?ids "?st ''W2''" "[''99999'']" "[?st ''W2'']"] h
    by (simp add: market_cfg_def)
qed

lemma divide_empty: "0 < n \<Longrightarrow> divide [] n = Inr []"
  by (simp add: divide_def py_range_def range_up.simps)

lemma seller_uploads_no_price:
  assumes "seller_create_prices rows ids' = Inr []"
  shows "appends_only (\<lambda>e. \<not> is_update_price e)
           (io_bind (lift (divide stocks 100)) (\<lambda>stock_chunks.
            io_bind (for_each stock_chunks (\<lambda>some_stock. update_stocks w some_stock c t)) (\<lambda>_.
            io_bind (lift (seller_create_prices rows ids')) (\<lambda>prices.
            io_bind (lift (divide prices 900)) (\<lambda>price_chunks.
            for_each price_chunks (\<lambda>some_price. update_price w some_price c t))))))"
  by (simp add: assms divide_empty) (intro appends_only_intros, simp_all)

lemma seller_main_no_price:
  assumes "\<forall>ids. offer_ids_reply w 0 (client_id cfg) (seller_token cfg) = Inr ids \<longrightarrow> distinct ids"
  shows "filter is_update_price (snd (seller_main cfg w [])) = []"
proof -
  let ?c = "client_id cfg" and ?t = "seller_token cfg"
  let ?G = "GetOfferIds ?c ?t :: (seller_stock, seller_price) event"
  show ?thesis
  proof (cases "offer_ids_reply w 0 ?c ?t")
    case (Inl e)
    then show ?thesis
      by (simp add: seller_main_def try_main_handler io_bind_def get_offer_ids_def)
  next
    case ids: (Inr ids)
    then have d: "distinct ids" using assms by simp
    show ?thesis
    proof (cases "download_reply w 1")
      case (Inl e)
      then show ?thesis using ids
        by (simp add: seller_main_def try_main_handler io_bind_def get_offer_ids_def
              download_stock_def)
    next
      case rows: (Inr rows)
      show ?thesis
      proof (cases "seller_create_stocks rows ids")
        case (Inl e)
        then show ?thesis using ids rows
          by (simp add: seller_main_def try_main_handler io_bind_def get_offer_ids_def
                download_stock_def lift_def)
      next
        case (Inr res)
        obtain stocks ids' where res: "res = (stocks, ids')" by (cases res)
        have p: "seller_create_prices rows ids' = Inr []"
          using create_prices_nothing_left [OF d] Inr res by simp
        let ?rest = "io_bind (lift (divide stocks 100)) (\<lambda>stock_chunks.
            io_bind (for_each stock_chunks (\<lambda>some_stock. update_stocks w some_stock ?c ?t)) (\<lambda>_.
            io_bind (lift (seller_create_prices rows ids')) (\<lambda>prices.
            io_bind (lift (divide prices 900)) (\<lambda>price_chunks.
            for_each price_chunks (\<lambda>some_price. update_price w some_price ?c ?t)))))"
        have m: "seller_main cfg w [] =
            (case ?rest [?G, DownloadStock] of
               (Inl e, tr') \<Rightarrow> (Inr (), tr' @ [Print (report_of e)])
             | (Inr x, tr') \<Rightarrow> (Inr x, tr'))"
        proof -
          have g: "get_offer_ids w ?c ?t [] = (Inr ids, [?G])"
            using ids by (simp add: get_offer_ids_def)
          have dl: "download_stock w [?G] = (Inr rows, [?G, DownloadStock])"
            using rows by (simp add: download_stock_def)
          show ?thesis
            unfolding seller_main_def try_main_handler
            by (simp add: io_bind_Inr [where m = "get_offer_ids w ?c ?t" and tr = "[]", OF g]
                  io_bind_Inr [where m = "download_stock w" and tr = "[?G]", OF dl] Inr res)
        qed
        have "filter is_update_price (snd (?rest [?G, DownloadStock])) = []"
          using appends_only_filter [OF seller_uploads_no_price [OF p], of stocks w ?c ?t "[?G, DownloadStock]"]
          by simp
        moreover obtain r tr' where x: "?rest [?G, DownloadStock] = (r, tr')"
          by (cases "?rest [?G, DownloadStock]")
        ultimately show ?thesis
          unfolding m x by (cases r) simp_all
      qed
    qed
  qed
qed

text \<open>
  Claim C4. In seller.py \<open>create_prices\<close> is given the list \<open>create_stocks\<close> has already
  mutated. For a duplicate-free list that list holds no code of any row, so the composition
  returns the empty list; and a run of \<open>main\<close> whose catalog request returns a duplicate-free
  list issues no \<open>UpdatePrice\<close> call, whatever the other replies are.
\<close>

theorem seller_price_payload_empty:
  "(distinct ids \<and> seller_create_stocks rows ids = Inr (stocks, ids')
      \<longrightarrow> seller_create_prices rows ids' = Inr [])
   \<and> ((\<forall>ids. offer_ids_reply w 0 (client_id cfg) (seller_token cfg) = Inr ids \<longrightarrow> distinct ids)
      \<longrightarrow> filter is_update_price (snd (seller_main cfg w [])) = [])"
  using create_prices_nothing_left [of ids rows stocks ids'] seller_main_no_price [of w cfg]
  by blast

theorem seller_price_payload_empty_witness:
  "distinct [''63433'', ''99999'']
   \<and> seller_create_stocks [row_63433] [''63433'', ''99999'']
       = Inr ([seller_stock_entry ''63433'' 100, seller_stock_entry ''99999'' 0], [''99999''])
   \<and> seller_create_prices [row_63433] [''99999''] = Inr []
   \<and> seller_create_prices [row_63433] [''63433'', ''99999'']
       = Inr [seller_price_entry ''63433'' ''2240'']
   \<and> filter is_update_price (snd (seller_main seller_cfg world_ok [])) = []"
proof -
  have d: "distinct [''63433'', ''99999'']" by simp
  have s: "seller_create_stocks [row_63433] [''63433'', ''99999'']
       = Inr ([seller_stock_entry ''63433'' 100, seller_stock_entry ''99999'' 0], [''99999''])"
    by (simp add: seller_create_stocks_def example_defs)
  have u: "seller_create_prices [row_63433] [''63433'', ''99999'']
       = Inr [seller_price_entry ''63433'' ''2240'']"
    by (simp add: price_eval_defs example_defs)
  have w: "\<forall>ids. offer_ids_reply (world_ok :: (seller_stock, seller_price) world) 0
              (client_id seller_cfg) (seller_token seller_cfg) = Inr ids \<longrightarrow> distinct ids"
    by (auto simp: world_ok_def)
  show ?thesis
    using seller_price_payload_empty
      [of "[''63433'', ''99999'']" "[row_63433]"
          "[seller_stock_entry ''63433'' 100, seller_stock_entry ''99999'' 0]" "[''99999'']"
          world_ok seller_cfg] d s u w
    by blast
qed

subsection \<open>Runs of the main functions, step by step\<close>

lemma accepted_Nil [simp]: "accepted reply n []"
  by (simp add: accepted_def)

lemma accepted_iff:
  "accepted reply n chunks \<longleftrightarrow> (\<forall>j < length chunks. reply (n + j) (chunks ! j) = Inr ())"
  by (auto simp: accepted_def list_all_iff)

lemma accepted_Cons:
  "accepted reply n (x # xs) \<longleftrightarrow> reply n x = Inr () \<and> accepted reply (Suc n) xs"
  unfolding accepted_iff by (auto simp: less_Suc_eq_0_disj)

lemma fails_at_Cons:
  "fails_at reply n (x # xs) k e \<longleftrightarrow>
     (case k of 0 \<Rightarrow> reply n x = Inl e
      | Suc k' \<Rightarrow> reply n x = Inr () \<and> fails_at reply (Suc n) xs k' e)"
  by (cases k) (auto simp: fails_at_def accepted_Cons)

lemma for_each_accepted:
  "accepted reply (length tr) xs \<Longrightarrow>
   for_each xs (\<lambda>x tr. (reply (length tr) x, tr @ [ev x])) tr = (Inr (), tr @ map ev xs)"
  by (induction xs arbitrary: tr) (simp_all add: returns_def io_bind_def accepted_Cons)

lemma for_each_fails_at:
  "fails_at reply (length tr) xs k e \<Longrightarrow>
   for_each xs (\<lambda>x tr. (reply (length tr) x, tr @ [ev x])) tr
     = (Inl e, tr @ map ev (take (Suc k) xs))"
proof (induction xs arbitrary: tr k)
  case Nil
  then show ?case by (simp add: fails_at_def)
next
  case (Cons x xs)
  show ?case
  proof (cases k)
    case 0
    then show ?thesis using Cons.prems by (simp add: fails_at_Cons io_bind_def)
  next
    case (Suc k')
    then have a: "reply (length tr) x = Inr ()"
      and f: "fails_at reply (length (tr @ [ev x])) xs k' e"
      using Cons.prems by (simp_all add: fails_at_Cons)
    show ?thesis
      using Cons.IH [OF f] a Suc by (simp add: io_bind_def)
  qed
qed

lemma update_stocks_call:
  "(\<lambda>s. update_stocks w s c tok)
     = (\<lambda>s tr. ((\<lambda>n s. stocks_reply w n s c tok) (length tr) s, tr @ [(\<lambda>s. UpdateStocks s c tok) s]))"
  by (simp add: update_stocks_def)

lemma update_price_call:
  "(\<lambda>p. update_price w p c tok)
     = (\<lambda>p tr. ((\<lambda>n p. price_reply w n p c tok) (length tr) p, tr @ [(\<lambda>p. UpdatePrice p c tok) p]))"
  by (simp add: update_price_def)

lemma upload_stocks_accepted:
  "accepted (\<lambda>n s. stocks_reply w n s c tok) (length tr) chunks \<Longrightarrow>
   for_each chunks (\<lambda>s. update_stocks w s c tok) tr
     = (Inr (), tr @ map (\<lambda>s. UpdateStocks s c tok) chunks)"
  unfolding update_stocks_call by (rule for_each_accepted)

lemma upload_stocks_fails_at:
  "fails_at (\<lambda>n s. stocks_reply w n s c tok) (length tr) chunks k e \<Longrightarrow>
   for_each chunks (\<lambda>s. update_stocks w s c tok) tr
     = (Inl e, tr @ map (\<lambda>s. UpdateStocks s c tok) (take (Suc k) chunks))"
  unfolding update_stocks_call by (rule for_each_fails_at)

lemma upload_price_accepted:
  "accepted (\<lambda>n p. price_reply w n p c tok) (length tr) chunks \<Longrightarrow>
   for_each chunks (\<lambda>p. update_price w p c tok) tr
     = (Inr (), tr @ map (\<lambda>p. UpdatePrice p c tok) chunks)"
  unfolding update_price_call by (rule for_each_accepted)

lemma upload_price_fails_at:
  "fails_at (\<lambda>n p. price_reply w n p c tok) (length tr) chunks k e \<Longrightarrow>
   for_each chunks (\<lambda>p. update_price w p c tok) tr
     = (Inl e, tr @ map (\<lambda>p. UpdatePrice p c tok) (take (Suc k) chunks))"
  unfolding update_price_call by (rule for_each_fails_at)

lemma market_segment_fetch_fails:
  "offer_ids_reply w (length tr) c tok = Inl e \<Longrightarrow>
   market_segment w rows c wh tok tr = (Inl e, tr @ [GetOfferIds c tok])"
  by (simp add: market_segment_def io_bind_def get_offer_ids_def)

lemma market_segment_reconcile_fails:
  "offer_ids_reply w (length tr) c tok = Inr ids \<Longrightarrow>
   market_create_stocks rows ids wh (utcnow w (Suc (length tr))) = Inl e \<Longrightarrow>
   market_segment w rows c wh tok tr = (Inl e, tr @ [GetOfferIds c tok])"
  by (simp add: market_segment_def io_bind_def get_offer_ids_def create_stocks_now_def)

lemma market_segment_upload_fails:
  assumes "offer_ids_reply w (length tr) c tok = Inr ids"
    and "market_create_stocks rows ids wh (utcnow w (Suc (length tr))) = Inr (stocks, left)"
    and "divide stocks 2000 = Inr chunks"
    and "fails_at (\<lambda>n s. stocks_reply w n s c tok) (Suc (length tr)) chunks k e"
  shows "market_segment w rows c wh tok tr
           = (Inl e, tr @ GetOfferIds c tok # map (\<lambda>s. UpdateStocks s c tok) (take (Suc k) chunks))"
proof -
  have "for_each chunks (\<lambda>s. update_stocks w s c tok) (tr @ [GetOfferIds c tok])
      = (Inl e, (tr @ [GetOfferIds c tok]) @ map (\<lambda>s. UpdateStocks s c tok) (take (Suc k) chunks))"
    using assms(4) by (intro upload_stocks_fails_at) simp
  then show ?thesis
    using assms(1-3)
    by (simp add: market_segment_def io_bind_def get_offer_ids_def create_stocks_now_def lift_def)
qed

lemma market_segment_accepted:
  assumes "offer_ids_reply w (length tr) c tok = Inr ids"
    and "market_create_stocks rows ids wh (utcnow w (Suc (length tr))) = Inr (stocks, left)"
    and "divide stocks 2000 = Inr chunks"
    and "accepted (\<lambda>n s. stocks_reply w n s c tok) (Suc (length tr)) chunks"
  shows "market_segment w rows c wh tok tr
           = (Inr (), tr @ GetOfferIds c tok # map (\<lambda>s. UpdateStocks s c tok) chunks)"
proof -
  have "for_each chunks (\<lambda>s. update_stocks w s c tok) (tr @ [GetOfferIds c tok])
      = (Inr (), (tr @ [GetOfferIds c tok]) @ map (\<lambda>s. UpdateStocks s c tok) chunks)"
    using assms(4) by (intro upload_stocks_accepted) simp
  then show ?thesis
    using assms(1-3)
    by (simp add: market_segment_def io_bind_def get_offer_ids_def create_stocks_now_def lift_def
          returns_def)
qed

lemma market_main_first_fails:
  assumes "download_reply w 0 = Inr rows"
    and "market_segment w rows (campaign_fbs_id cfg) (warehouse_fbs_id cfg) (market_token cfg)
           [DownloadStock] = (Inl e, tr)"
  shows "market_main cfg w [] = (Inr (), tr @ [Print (report_of e)])"
proof -
  have d: "download_stock w [] = (Inr rows, [DownloadStock])"
    using assms(1) by (simp add: download_stock_def)
  show ?thesis
    unfolding market_main_segments
    using assms(2)
    by (simp add: io_bind_Inr [where m = "download_stock w" and tr = "[]", OF d] try_main_handler
          io_bind_def [of "market_segment w rows (campaign_fbs_id cfg) (warehouse_fbs_id cfg)
             (market_token cfg)"])
qed

lemma market_main_second:
  assumes "download_reply w 0 = Inr rows"
    and "market_segment w rows (campaign_fbs_id cfg) (warehouse_fbs_id cfg) (market_token cfg)
           [DownloadStock] = (Inr (), tr)"
    and "market_segment w rows (campaign_dbs_id cfg) (warehouse_dbs_id cfg) (market_token cfg)
           tr = (r, tr')"
  shows "market_main cfg w []
           = (Inr (), case r of Inl e' \<Rightarrow> tr' @ [Print (report_of e')] | Inr u \<Rightarrow> tr')"
proof -
  have d: "download_stock w [] = (Inr rows, [DownloadStock])"
    using assms(1) by (simp add: download_stock_def)
  show ?thesis
    unfolding market_main_segments
    using assms(2,3)
    by (simp add: io_bind_Inr [where m = "download_stock w" and tr = "[]", OF d] try_main_handler
          io_bind_def [of "market_segment w rows (campaign_fbs_id cfg) (warehouse_fbs_id cfg)
             (market_token cfg)"] split: sum.splits)
qed

lemma market_main_fbs_fetch:
  assumes "download_reply w 0 = Inr rows"
    and "offer_ids_reply w 1 (campaign_fbs_id cfg) (market_token cfg) = Inl e"
  shows "market_main cfg w []
           = (Inr (), [DownloadStock, GetOfferIds (campaign_fbs_id cfg) (market_token cfg),
                       Print (report_of e)])"
  using market_main_first_fails [OF assms(1), of cfg e]
    market_segment_fetch_fails [of w "[DownloadStock]" "campaign_fbs_id cfg" "market_token cfg" e]
    assms(2)
  by simp

lemma market_main_fbs_reconcile:
  assumes "download_reply w 0 = Inr rows"
    and "offer_ids_reply w 1 (campaign_fbs_id cfg) (market_token cfg) = Inr ids"
    and "market_create_stocks rows ids (warehouse_fbs_id cfg) (utcnow w 2) = Inl e"
  shows "market_main cfg w []
           = (Inr (), [DownloadStock, GetOfferIds (campaign_fbs_id cfg) (market_token cfg),
                       Print (report_of e)])"
  using market_main_first_fails [OF assms(1), of cfg e]
    market_segment_reconcile_fails [of w "[DownloadStock]" "campaign_fbs_id cfg" "market_token cfg"
      ids rows "warehouse_fbs_id cfg" e]
    assms(2,3)
  by (simp add: numeral_2_eq_2)

lemma market_main_fbs_upload:
  assumes "download_reply w 0 = Inr rows"
    and "offer_ids_reply w 1 (campaign_fbs_id cfg) (market_token cfg) = Inr ids"
    and "market_create_stocks rows ids (warehouse_fbs_id cfg) (utcnow w 2) = Inr (stocks, left)"
    and "divide stocks 2000 = Inr chunks"
    and "fails_at (\<lambda>n s. stocks_reply w n s (campaign_fbs_id cfg) (market_token cfg)) 2 chunks k e"
  shows "market_main cfg w []
           = (Inr (), DownloadStock # GetOfferIds (campaign_fbs_id cfg) (market_token cfg)
                # map (\<lambda>s. UpdateStocks s (campaign_fbs_id cfg) (market_token cfg))
                    (take (Suc k) chunks)
                @ [Print (report_of e)])"
  using market_main_first_fails [OF assms(1), of cfg e]
    market_segment_upload_fails [of w "[DownloadStock]" "campaign_fbs_id cfg" "market_token cfg"
      ids rows "warehouse_fbs_id cfg" stocks left chunks k e]
    assms(2-5)
  by (simp add: numeral_2_eq_2)

lemma market_main_fbs_done:
  assumes "download_reply w 0 = Inr rows"
    and "offer_ids_reply w 1 (campaign_fbs_id cfg) (market_token cfg) = Inr ids"
    and "market_create_stocks rows ids (warehouse_fbs_id cfg) (utcnow w 2) = Inr (stocks, left)"
    and "divide stocks 2000 = Inr chunks"
    and "accepted (\<lambda>n s. stocks_reply w n s (campaign_fbs_id cfg) (market_token cfg)) 2 chunks"
    and "tr = DownloadStock # GetOfferIds (campaign_fbs_id cfg) (market_token cfg)
                # map (\<lambda>s. UpdateStocks s (campaign_fbs_id cfg) (market_token cfg)) chunks"
    and "market_segment w rows (campaign_dbs_id cfg) (warehouse_dbs_id cfg) (market_token cfg)
           tr = (r, tr')"
  shows "market_main cfg w []
           = (Inr (), case r of Inl e' \<Rightarrow> tr' @ [Print (report_of e')] | Inr u \<Rightarrow> tr')"
proof -
  have "market_segment w rows (campaign_fbs_id cfg) (warehouse_fbs_id cfg) (market_token cfg)
          [DownloadStock] = (Inr (), tr)"
    using market_segment_accepted [of w "[DownloadStock]" "campaign_fbs_id cfg" "market_token cfg"
      ids rows "warehouse_fbs_id cfg" stocks left chunks] assms(2-6)
    by (simp add: numeral_2_eq_2)
  then show ?thesis
    using assms(1,7) by (intro market_main_second)
qed

lemmas seller_run_defs = seller_main_def try_main_handler io_bind_def get_offer_ids_def
  download_stock_def lift_def

lemma seller_main_fetch:
  assumes "offer_ids_reply w 0 (client_id cfg) (seller_token cfg) = Inl e"
  shows "seller_main cfg w []
           = (Inr (), [GetOfferIds (client_id cfg) (seller_token cfg), Print (report_of e)])"
  using assms by (simp add: seller_run_defs)

lemma seller_main_download:
  assumes "offer_ids_reply w 0 (client_id cfg) (seller_token cfg) = Inr ids"
    and "download_reply w 1 = Inl e"
  shows "seller_main cfg w []
           = (Inr (), [GetOfferIds (client_id cfg) (seller_token cfg), DownloadStock,
                       Print (report_of e)])"
  using assms by (simp add: seller_run_defs)

lemma seller_main_reconcile:
  assumes "offer_ids_reply w 0 (client_id cfg) (seller_token cfg) = Inr ids"
    and "download_reply w 1 = Inr rows"
    and "seller_create_stocks rows ids = Inl e"
  shows "seller_main cfg w []
           = (Inr (), [GetOfferIds (client_id cfg) (seller_token cfg), DownloadStock,
                       Print (report_of e)])"
  using assms by (simp add: seller_run_defs)

lemma seller_main_upload:
  assumes "offer_ids_reply w 0 (client_id cfg) (seller_token cfg) = Inr ids"
    and "download_reply w 1 = Inr rows"
    and "seller_create_stocks rows ids = Inr (stocks, left)"
    and "divide stocks 100 = Inr chunks"
    and "fails_at (\<lambda>n s. stocks_reply w n s (client_id cfg) (seller_token cfg)) 2 chunks k e"
  shows "seller_main cfg w []
           = (Inr (), GetOfferIds (client_id cfg) (seller_token cfg) # DownloadStock
                # map (\<lambda>s. UpdateStocks s (client_id cfg) (seller_token cfg)) (take (Suc k) chunks)
                @ [Print (report_of e)])"
proof -
  let ?c = "client_id cfg" and ?t = "seller_token cfg"
  let ?tr = "[GetOfferIds ?c ?t, DownloadStock] :: (seller_stock, seller_price) event list"
  have "for_each chunks (\<lambda>s. update_stocks w s ?c ?t) ?tr
          = (Inl e, ?tr @ map (\<lambda>s. UpdateStocks s ?c ?t) (take (Suc k) chunks))"
    using assms(5) by (intro upload_stocks_fails_at) (simp add: numeral_2_eq_2)
  then show ?thesis
    using assms(1-4) by (simp add: seller_run_defs)
qed

lemma seller_main_prices:
  assumes "offer_ids_reply w 0 (client_id cfg) (seller_token cfg) = Inr ids"
    and "download_reply w 1 = Inr rows"
    and "seller_create_stocks rows ids = Inr (stocks, left)"
    and "divide stocks 100 = Inr chunks"
    and "accepted (\<lambda>n s. stocks_reply w n s (client_id cfg) (seller_token cfg)) 2 chunks"
    and "tr = GetOfferIds (client_id cfg) (seller_token cfg) # DownloadStock
                # map (\<lambda>s. UpdateStocks s (client_id cfg) (seller_token cfg)) chunks"
  shows "seller_create_prices rows left = Inl e \<Longrightarrow>
           seller_main cfg w [] = (Inr (), tr @ [Print (report_of e)])"
    and "seller_create_prices rows left = Inr prices \<Longrightarrow> divide prices 900 = Inr price_chunks \<Longrightarrow>
         fails_at (\<lambda>n p. price_reply w n p (client_id cfg) (seller_token cfg)) (length tr)
           price_chunks k e \<Longrightarrow>
           seller_main cfg w []
             = (Inr (), tr @ map (\<lambda>p. UpdatePrice p (client_id cfg) (seller_token cfg))
                              (take (Suc k) price_chunks)
                        @ [Print (report_of e)])"
    and "seller_create_prices rows left = Inr prices \<Longrightarrow> divide prices 900 = Inr price_chunks \<Longrightarrow>
         accepted (\<lambda>n p. price_reply w n p (client_id cfg) (seller_token cfg)) (length tr)
           price_chunks \<Longrightarrow>
           seller_main cfg w []
             = (Inr (), tr @ map (\<lambda>p. UpdatePrice p (client_id cfg) (seller_token cfg)) price_chunks)"
proof -
  let ?c = "client_id cfg" and ?t = "seller_token cfg"
  let ?tr = "[GetOfferIds ?c ?t, DownloadStock] :: (seller_stock, seller_price) event list"
  have u: "for_each chunks (\<lambda>s. update_stocks w s ?c ?t) ?tr = (Inr (), tr)"
    using upload_stocks_accepted [of w ?c ?t ?tr chunks] assms(5,6)
    by (simp add: numeral_2_eq_2)
  show "seller_main cfg w [] = (Inr (), tr @ [Print (report_of e)])"
    if "seller_create_prices rows left = Inl e"
    using assms(1-4) u that by (simp add: seller_run_defs)
  show "seller_main cfg w []
             = (Inr (), tr @ map (\<lambda>p. UpdatePrice p ?c ?t) (take (Suc k) price_chunks)
                        @ [Print (report_of e)])"
    if "seller_create_prices rows left = Inr prices" "divide prices 900 = Inr price_chunks"
      "fails_at (\<lambda>n p. price_reply w n p ?c ?t) (length tr) price_chunks k e"
    using assms(1-4) u that(1,2) upload_price_fails_at [OF that(3)]
    by (simp add: seller_run_defs)
  show "seller_main cfg w []
             = (Inr (), tr @ map (\<lambda>p. UpdatePrice p ?c ?t) price_chunks)"
    if "seller_create_prices rows left = Inr prices" "divide prices 900 = Inr price_chunks"
      "accepted (\<lambda>n p. price_reply w n p ?c ?t) (length tr) price_chunks"
    using assms(1-4) u that(1,2) upload_price_accepted [OF that(3)]
    by (simp add: seller_run_defs)
qed

lemma market_main_dbs:
  assumes "download_reply w 0 = Inr rows"
    and "offer_ids_reply w 1 (campaign_fbs_id cfg) (market_token cfg) = Inr ids"
    and "market_create_stocks rows ids (warehouse_fbs_id cfg) (utcnow w 2) = Inr (stocks, left)"
    and "divide stocks 2000 = Inr chunks"
    and "accepted (\<lambda>n s. stocks_reply w n s (campaign_fbs_id cfg) (market_token cfg)) 2 chunks"
    and "tr = DownloadStock # GetOfferIds (campaign_fbs_id cfg) (market_token cfg)
                # map (\<lambda>s. UpdateStocks s (campaign_fbs_id cfg) (market_token cfg)) chunks"
  shows "offer_ids_reply w (length tr) (campaign_dbs_id cfg) (market_token cfg) = Inl e \<Longrightarrow>
           market_main cfg w []
             = (Inr (), tr @ [GetOfferIds (campaign_dbs_id cfg) (market_token cfg),
                              Print (report_of e)])"
    and "offer_ids_reply w (length tr) (campaign_dbs_id cfg) (market_token cfg) = Inr ids2 \<Longrightarrow>
         market_create_stocks rows ids2 (warehouse_dbs_id cfg) (utcnow w (Suc (length tr))) = Inl e \<Longrightarrow>
           market_main cfg w []
             = (Inr (), tr @ [GetOfferIds (campaign_dbs_id cfg) (market_token cfg),
                              Print (report_of e)])"
    and "offer_ids_reply w (length tr) (campaign_dbs_id cfg) (market_token cfg) = Inr ids2 \<Longrightarrow>
         market_create_stocks rows ids2 (warehouse_dbs_id cfg) (utcnow w (Suc (length tr)))
           = Inr (stocks2, left2) \<Longrightarrow>
         divide stocks2 2000 = Inr chunks2 \<Longrightarrow>
         fails_at (\<lambda>n s. stocks_reply w n s (campaign_dbs_id cfg) (market_token cfg))
           (Suc (length tr)) chunks2 k e \<Longrightarrow>
           market_main cfg w []
             = (Inr (), tr @ GetOfferIds (campaign_dbs_id cfg) (market_token cfg)
                  # map (\<lambda>s. UpdateStocks s (campaign_dbs_id cfg) (market_token cfg))
                      (take (Suc k) chunks2)
                  @ [Print (report_of e)])"
    and "offer_ids_reply w (length tr) (campaign_dbs_id cfg) (market_token cfg) = Inr ids2 \<Longrightarrow>
         market_create_stocks rows ids2 (warehouse_dbs_id cfg) (utcnow w (Suc (length tr)))
           = Inr (stocks2, left2) \<Longrightarrow>
         divide stocks2 2000 = Inr chunks2 \<Longrightarrow>
         accepted (\<lambda>n s. stocks_reply w n s (campaign_dbs_id cfg) (market_token cfg))
           (Suc (length tr)) chunks2 \<Longrightarrow>
           market_main cfg w []
             = (Inr (), tr @ GetOfferIds (campaign_dbs_id cfg) (market_token cfg)
                  # map (\<lambda>s. UpdateStocks s (campaign_dbs_id cfg) (market_token cfg)) chunks2)"
proof -
  note fbs_done = market_main_fbs_done [OF assms]
  show "market_main cfg w []
             = (Inr (), tr @ [GetOfferIds (campaign_dbs_id cfg) (market_token cfg),
                              Print (report_of e)])"
    if "offer_ids_reply w (length tr) (campaign_dbs_id cfg) (market_token cfg) = Inl e"
    using fbs_done [OF market_segment_fetch_fails [OF that]] by simp
  show "market_main cfg w []
             = (Inr (), tr @ [GetOfferIds (campaign_dbs_id cfg) (market_token cfg),
                              Print (report_of e)])"
    if "offer_ids_reply w (length tr) (campaign_dbs_id cfg) (market_token cfg) = Inr ids2"
      "market_create_stocks rows ids2 (warehouse_dbs_id cfg) (utcnow w (Suc (length tr))) = Inl e"
    using fbs_done [OF market_segment_reconcile_fails [OF that]] by simp
  show "market_main cfg w []
             = (Inr (), tr @ GetOfferIds (campaign_dbs_id cfg) (market_token cfg)
                  # map (\<lambda>s. UpdateStocks s (campaign_dbs_id cfg) (market_token cfg))
                      (take (Suc k) chunks2)
                  @ [Print (report_of e)])"
    if "offer_ids_reply w (length tr) (campaign_dbs_id cfg) (market_token cfg) = Inr ids2"
      "market_create_stocks rows ids2 (warehouse_dbs_id cfg) (utcnow w (Suc (length tr)))
           = Inr (stocks2, left2)"
      "divide stocks2 2000 = Inr chunks2"
      "fails_at (\<lambda>n s. stocks_reply w n s (campaign_dbs_id cfg) (market_token cfg))
           (Suc (length tr)) chunks2 k e"
    using fbs_done [OF market_segment_upload_fails [OF that]] by simp
  show "market_main cfg w []
             = (Inr (), tr @ GetOfferIds (campaign_dbs_id cfg) (market_token cfg)
                  # map (\<lambda>s. UpdateStocks s (campaign_dbs_id cfg) (market_token cfg)) chunks2)"
    if "offer_ids_reply w (length tr) (campaign_dbs_id cfg) (market_token cfg) = Inr ids2"
      "market_create_stocks rows ids2 (warehouse_dbs_id cfg) (utcnow w (Suc (length tr)))
           = Inr (stocks2, left2)"
      "divide stocks2 2000 = Inr chunks2"
      "accepted (\<lambda>n s. stocks_reply w n s (campaign_dbs_id cfg) (market_token cfg))
           (Suc (length tr)) chunks2"
    using fbs_done [OF market_segment_accepted [OF that]] by simp
qed

text \<open>
  Claim C6, amended. An error raised by a step inside the \<^verbatim>\<open>try\<close> block of \<^verbatim>\<open>main\<close> is caught
  and reported, \<^verbatim>\<open>main\<close> returns normally, and the failing step is the last one attempted: the
  trace of the run is the calls up to and including the failing one, then the report. This
  is stated step by step, for the catalog request, the reconciliation and the upload of each
  chunk, in market.py for the FBS block and then for the DBS block, in seller.py for the
  stocks and then for the prices. In market.py both blocks are in one \<^verbatim>\<open>try\<close>: when a step of
  the FBS block raises, no call of the DBS campaign is made; the DBS block starts only after
  every step of the FBS block has succeeded. A run in which no step raises prints nothing.
\<close>

theorem main_reports_and_stops:
  "(download_reply w 0 = Inr rows \<longrightarrow>
      (offer_ids_reply w 1 (campaign_fbs_id cfg) (market_token cfg) = Inl e \<longrightarrow>
         market_main cfg w []
           = (Inr (), [DownloadStock, GetOfferIds (campaign_fbs_id cfg) (market_token cfg),
                       Print (report_of e)]))
    \<and> (offer_ids_reply w 1 (campaign_fbs_id cfg) (market_token cfg) = Inr ids \<longrightarrow>
        (market_create_stocks rows ids (warehouse_fbs_id cfg) (utcnow w 2) = Inl e \<longrightarrow>
           market_main cfg w []
             = (Inr (), [DownloadStock, GetOfferIds (campaign_fbs_id cfg) (market_token cfg),
                         Print (report_of e)]))
      \<and> (market_create_stocks rows ids (warehouse_fbs_id cfg) (utcnow w 2) = Inr (stocks, left)
          \<and> divide stocks 2000 = Inr chunks \<longrightarrow>
          (fails_at (\<lambda>n s. stocks_reply w n s (campaign_fbs_id cfg) (market_token cfg)) 2 chunks k e
             \<longrightarrow>
             market_main cfg w []
               = (Inr (), DownloadStock # GetOfferIds (campaign_fbs_id cfg) (market_token cfg)
                    # map (\<lambda>s. UpdateStocks s (campaign_fbs_id cfg) (market_token cfg))
                        (take (Suc k) chunks)
                    @ [Print (report_of e)]))
        \<and> (accepted (\<lambda>n s. stocks_reply w n s (campaign_fbs_id cfg) (market_token cfg)) 2 chunks
            \<and> tr = DownloadStock # GetOfferIds (campaign_fbs_id cfg) (market_token cfg)
                      # map (\<lambda>s. UpdateStocks s (campaign_fbs_id cfg) (market_token cfg)) chunks
            \<longrightarrow>
            (offer_ids_reply w (length tr) (campaign_dbs_id cfg) (market_token cfg) = Inl e \<longrightarrow>
               market_main cfg w []
                 = (Inr (), tr @ [GetOfferIds (campaign_dbs_id cfg) (market_token cfg),
                                  Print (report_of e)]))
          \<and> (offer_ids_reply w (length tr) (campaign_dbs_id cfg) (market_token cfg) = Inr ids2
              \<longrightarrow>
              (market_create_stocks rows ids2 (warehouse_dbs_id cfg) (utcnow w (Suc (length tr)))
                 = Inl e \<longrightarrow>
                 market_main cfg w []
                   = (Inr (), tr @ [GetOfferIds (campaign_dbs_id cfg) (market_token cfg),
                                    Print (report_of e)]))
            \<and> (market_create_stocks rows ids2 (warehouse_dbs_id cfg) (utcnow w (Suc (length tr)))
                  = Inr (stocks2, left2)
                \<and> divide stocks2 2000 = Inr chunks2 \<longrightarrow>
                (fails_at (\<lambda>n s. stocks_reply w n s (campaign_dbs_id cfg) (market_token cfg))
                   (Suc (length tr)) chunks2 k e \<longrightarrow>
                   market_main cfg w []
                     = (Inr (), tr @ GetOfferIds (campaign_dbs_id cfg) (market_token cfg)
                          # map (\<lambda>s. UpdateStocks s (campaign_dbs_id cfg) (market_token cfg))
                              (take (Suc k) chunks2)
                          @ [Print (report_of e)]))
              \<and> (accepted (\<lambda>n s. stocks_reply w n s (campaign_dbs_id cfg) (market_token cfg))
                   (Suc (length tr)) chunks2 \<longrightarrow>
                   market_main cfg w []
                     = (Inr (), tr @ GetOfferIds (campaign_dbs_id cfg) (market_token cfg)
                          # map (\<lambda>s. UpdateStocks s (campaign_dbs_id cfg) (market_token cfg))
                              chunks2))))))))
   \<and> (offer_ids_reply sw 0 (client_id scfg) (seller_token scfg) = Inl e \<longrightarrow>
        seller_main scfg sw []
          = (Inr (), [GetOfferIds (client_id scfg) (seller_token scfg), Print (report_of e)]))
   \<and> (offer_ids_reply sw 0 (client_id scfg) (seller_token scfg) = Inr sids \<longrightarrow>
        (download_reply sw 1 = Inl e \<longrightarrow>
           seller_main scfg sw []
             = (Inr (), [GetOfferIds (client_id scfg) (seller_token scfg), DownloadStock,
                         Print (report_of e)]))
      \<and> (download_reply sw 1 = Inr srows \<longrightarrow>
          (seller_create_stocks srows sids = Inl e \<longrightarrow>
             seller_main scfg sw []
               = (Inr (), [GetOfferIds (client_id scfg) (seller_token scfg), DownloadStock,
                           Print (report_of e)]))
        \<and> (seller_create_stocks srows sids = Inr (sstocks, sleft)
            \<and> divide sstocks 100 = Inr schunks \<longrightarrow>
            (fails_at (\<lambda>n s. stocks_reply sw n s (client_id scfg) (seller_token scfg)) 2 schunks k e
               \<longrightarrow>
               seller_main scfg sw []
                 = (Inr (), GetOfferIds (client_id scfg) (seller_token scfg) # DownloadStock
                      # map (\<lambda>s. UpdateStocks s (client_id scfg) (seller_token scfg))
                          (take (Suc k) schunks)
                      @ [Print (report_of e)]))
          \<and> (accepted (\<lambda>n s. stocks_reply sw n s (client_id scfg) (seller_token scfg)) 2 schunks
              \<and> str = GetOfferIds (client_id scfg) (seller_token scfg) # DownloadStock
                         # map (\<lambda>s. UpdateStocks s (client_id scfg) (seller_token scfg)) schunks
              \<longrightarrow>
              (seller_create_prices srows sleft = Inl e \<longrightarrow>
                 seller_main scfg sw [] = (Inr (), str @ [Print (report_of e)]))
            \<and> (seller_create_prices srows sleft = Inr prices
                \<and> divide prices 900 = Inr price_chunks \<longrightarrow>
                (fails_at (\<lambda>n p. price_reply sw n p (client_id scfg) (seller_token scfg))
                   (length str) price_chunks k e \<longrightarrow>
                   seller_main scfg sw []
                     = (Inr (), str @ map (\<lambda>p. UpdatePrice p (client_id scfg) (seller_token scfg))
                                       (take (Suc k) price_chunks)
                                @ [Print (report_of e)]))
              \<and> (accepted (\<lambda>n p. price_reply sw n p (client_id scfg) (seller_token scfg))
                   (length str) price_chunks \<longrightarrow>
                   seller_main scfg sw []
                     = (Inr (), str @ map (\<lambda>p. UpdatePrice p (client_id scfg) (seller_token scfg))
                                       price_chunks)))))))"
  apply (intro conjI impI; (elim conjE)?)
  subgoal by (rule market_main_fbs_fetch)
  subgoal by (rule market_main_fbs_reconcile)
  subgoal by (rule market_main_fbs_upload)
  subgoal by (rule market_main_dbs(1))
  subgoal by (rule market_main_dbs(2))
  subgoal by (rule market_main_dbs(3))
  subgoal by (rule market_main_dbs(4))
  subgoal by (rule seller_main_fetch)
  subgoal by (rule seller_main_download)
  subgoal by (rule seller_main_reconcile)
  subgoal by (rule seller_main_upload)
  subgoal by (rule seller_main_prices(1))
  subgoal by (rule seller_main_prices(2))
  subgoal by (rule seller_main_prices(3))
  done

text \<open>
  Claim C6 as stated: a failure in the FBS segment must not prevent the DBS segment from being
  attempted. In the world where only the catalog request of the FBS campaign fails, and the
  one of the DBS campaign would succeed, \<^verbatim>\<open>main\<close> of market.py stops after the report and
  never requests the DBS catalog.
\<close>

theorem fbs_failure_skips_dbs_counterexample:
  "market_main market_cfg world_fbs_down []
     = (Inr (), [DownloadStock, GetOfferIds ''FBS'' ''token'', Print (OtherReport HTTPError)])
   \<and> GetOfferIds ''DBS'' ''token'' \<notin> set (snd (market_main market_cfg world_fbs_down []))
   \<and> offer_ids_reply (world_fbs_down :: (market_stock, market_price) world) 2 ''DBS'' ''token''
       = Inr [''63433'', ''99999'']"
  by (simp add: io_eval_defs example_defs)

theorem main_reports_and_stops_witness:
  "market_main market_cfg world_fbs_down []
     = (Inr (), [DownloadStock, GetOfferIds ''FBS'' ''token'', Print (OtherReport HTTPError)])
   \<and> market_main market_cfg world_bad_row []
     = (Inr (), [DownloadStock, GetOfferIds ''FBS'' ''token'', Print (OtherReport ValueError)])
   \<and> market_main market_cfg world_stocks_down []
     = (Inr (), [DownloadStock, GetOfferIds ''FBS'' ''token'',
          UpdateStocks [market_stock_entry ''W1'' ''2025-01-20T17:14:52Z'' ''63433'' 100,
                        market_stock_entry ''W1'' ''2025-01-20T17:14:52Z'' ''99999'' 0] ''FBS'' ''token'',
          Print (ConnectionReport ConnectionError)])
   \<and> market_main market_cfg world_dbs_fetch_down []
     = (Inr (), [DownloadStock, GetOfferIds ''FBS'' ''token'',
          UpdateStocks [market_stock_entry ''W1'' ''2025-01-20T17:14:52Z'' ''63433'' 100,
                        market_stock_entry ''W1'' ''2025-01-20T17:14:52Z'' ''99999'' 0] ''FBS'' ''token'',
          GetOfferIds ''DBS'' ''token'', Print (OtherReport HTTPError)])
   \<and> market_main market_cfg world_dbs_bad_row []
     = (Inr (), [DownloadStock, GetOfferIds ''FBS'' ''token'',
          UpdateStocks [market_stock_entry ''W1'' ''2025-01-20T17:14:52Z'' ''63433'' 100,
                        market_stock_entry ''W1'' ''2025-01-20T17:14:52Z'' ''99999'' 0] ''FBS'' ''token'',
          GetOfferIds ''DBS'' ''token'', Print (OtherReport ValueError)])
   \<and> market_main market_cfg world_dbs_down []
     = (Inr (), [DownloadStock, GetOfferIds ''FBS'' ''token'',
          UpdateStocks [market_stock_entry ''W1'' ''2025-01-20T17:14:52Z'' ''63433'' 100,
                        market_stock_entry ''W1'' ''2025-01-20T17:14:52Z'' ''99999'' 0] ''FBS'' ''token'',
          GetOfferIds ''DBS'' ''token'',
          UpdateStocks [market_stock_entry ''W2'' ''2025-01-20T17:14:52Z'' ''63433'' 100,
                        market_stock_entry ''W2'' ''2025-01-20T17:14:52Z'' ''99999'' 0] ''DBS'' ''token'',
          Print TimeoutReport])
   \<and> market_main market_cfg world_ok []
     = (Inr (), [DownloadStock, GetOfferIds ''FBS'' ''token'',
          UpdateStocks [market_stock_entry ''W1'' ''2025-01-20T17:14:52Z'' ''63433'' 100,
                        market_stock_entry ''W1'' ''2025-01-20T17:14:52Z'' ''99999'' 0] ''FBS'' ''token'',
          GetOfferIds ''DBS'' ''token'',
          UpdateStocks [market_stock_entry ''W2'' ''2025-01-20T17:14:52Z'' ''63433'' 100,
                        market_stock_entry ''W2'' ''2025-01-20T17:14:52Z'' ''99999'' 0] ''DBS'' ''token''])
   \<and> seller_main seller_cfg world_fetch_down []
     = (Inr (), [GetOfferIds ''client'' ''token'', Print TimeoutReport])
   \<and> seller_main seller_cfg world_download_down []
     = (Inr (), [GetOfferIds ''client'' ''token'', DownloadStock,
          Print (ConnectionReport ConnectionError)])
   \<and> seller_main seller_cfg world_bad_row []
     = (Inr (), [GetOfferIds ''client'' ''token'', DownloadStock, Print (OtherReport ValueError)])
   \<and> seller_main seller_cfg world_stocks_down []
     = (Inr (), [GetOfferIds ''client'' ''token'', DownloadStock,
          UpdateStocks [seller_stock_entry ''63433'' 100, seller_stock_entry ''99999'' 0]
            ''client'' ''token'',
          Print (ConnectionReport ConnectionError)])
   \<and> seller_main seller_cfg world_int_price []
     = (Inr (), [GetOfferIds ''client'' ''token'', DownloadStock,
          UpdateStocks [seller_stock_entry ''8'' 5, seller_stock_entry ''8'' 0] ''client'' ''token'',
          Print (OtherReport AttributeError)])
   \<and> seller_main seller_cfg world_prices_down []
     = (Inr (), [GetOfferIds ''client'' ''token'', DownloadStock,
          UpdateStocks [seller_stock_entry ''63433'' 100, seller_stock_entry ''63433'' 0]
            ''client'' ''token'',
          UpdatePrice [seller_price_entry ''63433'' ''2240''] ''client'' ''token'',
          Print TimeoutReport])
   \<and> seller_main seller_cfg world_ok []
     = (Inr (), [GetOfferIds ''client'' ''token'', DownloadStock,
          UpdateStocks [seller_stock_entry ''63433'' 100, seller_stock_entry ''99999'' 0]
            ''client'' ''token''])"
proof -
  let ?date = "''2025-01-20T17:14:52Z''"
  let ?ids = "[''63433'', ''99999'']"
  let ?st = "\<lambda>wh. [market_stock_entry wh ?date ''63433'' 100, market_stock_entry wh ?date ''99999'' 0]"
  let ?ss = "[seller_stock_entry ''63433'' 100, seller_stock_entry ''99999'' 0]"
  let ?tr = "DownloadStock # GetOfferIds ''FBS'' ''token''
               # map (\<lambda>s. UpdateStocks s ''FBS'' ''token'') [?st ''W1'']
             :: (market_stock, market_price) event list"
  let ?str = "\<lambda>stocks. GetOfferIds ''client'' ''token'' # DownloadStock
               # map (\<lambda>s. UpdateStocks s ''client'' ''token'') [stocks]
             :: (seller_stock, seller_price) event list"
  note cfg = market_cfg_def seller_cfg_def
  note worlds = world_ok_def world_fbs_down_def world_stocks_down_def world_dbs_down_def
    world_fetch_down_def world_dbs_fetch_down_def world_download_down_def world_bad_row_def
    world_dbs_bad_row_def world_int_price_def world_prices_down_def
  note div = divide_def py_range_def range_up.simps py_slice_def slice_index_def
  have c: "market_create_stocks [row_63433] ?ids wh ?date = Inr (?st wh, [''99999''])" for wh
    by (simp add: market_create_stocks_def example_defs)
  have c2: "market_create_stocks [row_63433, row_8_bad] ?ids wh ?date = Inr (?st wh, [''99999''])"
    for wh
    by (simp add: market_create_stocks_def example_defs)
  have cb: "market_create_stocks [row_8_bad] [''8''] wh ?date = Inl ValueError" for wh
    by (simp add: market_create_stocks_def example_defs py_int_of_str_def strip_def is_space_def
          int_of_unsigned_def is_digit_def)
  have cb2: "market_create_stocks [row_63433, row_8_bad] [''8''] wh ?date = Inl ValueError" for wh
    by (simp add: market_create_stocks_def example_defs py_int_of_str_def strip_def is_space_def
          int_of_unsigned_def is_digit_def)
  have d: "divide (?st wh) 2000 = Inr [?st wh]" for wh
    by (simp add: div)
  have s: "seller_create_stocks [row_63433] ?ids = Inr (?ss, [''99999''])"
    by (simp add: seller_create_stocks_def example_defs)
  have sb: "seller_create_stocks [row_8_bad] [''8''] = Inl ValueError"
    by (simp add: seller_create_stocks_def example_defs py_int_of_str_def strip_def is_space_def
          int_of_unsigned_def is_digit_def)
  have si: "seller_create_stocks [row_int_price] [''8'', ''8'']
      = Inr ([seller_stock_entry ''8'' 5, seller_stock_entry ''8'' 0], [''8''])"
    by (simp add: seller_create_stocks_def example_defs row_int_price_def py_int_of_str_def
          strip_def is_space_def int_of_unsigned_def is_digit_def digit_val_def
          int_max_str_digits_def)
  have sp: "seller_create_stocks [row_63433] [''63433'', ''63433'']
      = Inr ([seller_stock_entry ''63433'' 100, seller_stock_entry ''63433'' 0], [''63433''])"
    by (simp add: seller_create_stocks_def example_defs)
  have sd: "divide [x, y] 100 = Inr [[x, y]]" for x y :: seller_stock
    by (simp add: div)
  have p: "seller_create_prices [row_63433] [''99999''] = Inr []"
    by (simp add: price_eval_defs example_defs)
  have pi: "seller_create_prices [row_int_price] [''8''] = Inl AttributeError"
    by (simp add: price_eval_defs row_int_price_def)
  have pp: "seller_create_prices [row_63433] [''63433''] = Inr [seller_price_entry ''63433'' ''2240'']"
    by (simp add: price_eval_defs example_defs)
  have pd: "divide ([] :: seller_price list) 900 = Inr []"
    by (simp add: divide_empty)
  have pd1: "divide [x] 900 = Inr [[x]]" for x :: seller_price
    by (simp add: div)
  have w1: "market_main market_cfg world_fbs_down []
     = (Inr (), [DownloadStock, GetOfferIds ''FBS'' ''token'', Print (OtherReport HTTPError)])"
    using main_reports_and_stops [where w = world_fbs_down and cfg = market_cfg
        and rows = "[row_63433]" and e = HTTPError]
    by (simp add: cfg worlds report_of_def)
  have w2: "market_main market_cfg world_bad_row []
     = (Inr (), [DownloadStock, GetOfferIds ''FBS'' ''token'', Print (OtherReport ValueError)])"
    using main_reports_and_stops [where w = world_bad_row and cfg = market_cfg
        and rows = "[row_8_bad]" and ids = "[''8'']" and e = ValueError] cb
    by (simp add: cfg worlds report_of_def)
  have w3: "market_main market_cfg world_stocks_down []
     = (Inr (), [DownloadStock, GetOfferIds ''FBS'' ''token'',
          UpdateStocks (?st ''W1'') ''FBS'' ''token'', Print (ConnectionReport ConnectionError)])"
    using main_reports_and_stops [where w = world_stocks_down and cfg = market_cfg
        and rows = "[row_63433]" and ids = ?ids and stocks = "?st ''W1''" and left = "[''99999'']"
        and chunks = "[?st ''W1'']" and k = 0 and e = ConnectionError] c d
    by (simp add: cfg worlds report_of_def fails_at_def)
  have w4: "market_main market_cfg world_dbs_fetch_down []
     = (Inr (), [DownloadStock, GetOfferIds ''FBS'' ''token'',
          UpdateStocks (?st ''W1'') ''FBS'' ''token'', GetOfferIds ''DBS'' ''token'',
          Print (OtherReport HTTPError)])"
    using main_reports_and_stops [where w = world_dbs_fetch_down and cfg = market_cfg
        and rows = "[row_63433]" and ids = ?ids and stocks = "?st ''W1''" and left = "[''99999'']"
        and chunks = "[?st ''W1'']" and tr = ?tr and e = HTTPError] c d
    by (simp add: cfg worlds report_of_def accepted_def)
  have w5: "market_main market_cfg world_dbs_bad_row []
     = (Inr (), [DownloadStock, GetOfferIds ''FBS'' ''token'',
          UpdateStocks (?st ''W1'') ''FBS'' ''token'', GetOfferIds ''DBS'' ''token'',
          Print (OtherReport ValueError)])"
    using main_reports_and_stops [where w = world_dbs_bad_row and cfg = market_cfg
        and rows = "[row_63433, row_8_bad]" and ids = ?ids and stocks = "?st ''W1''"
        and left = "[''99999'']" and chunks = "[?st ''W1'']" and tr = ?tr
        and ?ids2.0 = "[''8'']" and e = ValueError] c2 cb2 d
    by (simp add: cfg worlds report_of_def accepted_def)
  have w6: "market_main market_cfg world_dbs_down []
     = (Inr (), [DownloadStock, GetOfferIds ''FBS'' ''token'',
          UpdateStocks (?st ''W1'') ''FBS'' ''token'', GetOfferIds ''DBS'' ''token'',
          UpdateStocks (?st ''W2'') ''DBS'' ''token'', Print TimeoutReport])"
    using main_reports_and_stops [where w = world_dbs_down and cfg = market_cfg
        and rows = "[row_63433]" and ids = ?ids and stocks = "?st ''W1''" and left = "[''99999'']"
        and chunks = "[?st ''W1'']" and tr = ?tr and ?ids2.0 = ?ids and ?stocks2.0 = "?st ''W2''"
        and ?left2.0 = "[''99999'']" and ?chunks2.0 = "[?st ''W2'']" and k = 0 and e = ReadTimeout]
      c d
    by (simp add: cfg worlds report_of_def fails_at_def accepted_def)
  have w7: "market_main market_cfg world_ok []
     = (Inr (), [DownloadStock, GetOfferIds ''FBS'' ''token'',
          UpdateStocks (?st ''W1'') ''FBS'' ''token'', GetOfferIds ''DBS'' ''token'',
          UpdateStocks (?st ''W2'') ''DBS'' ''token''])"
    using main_reports_and_stops [where w = world_ok and cfg = market_cfg
        and rows = "[row_63433]" and ids = ?ids and stocks = "?st ''W1''" and left = "[''99999'']"
        and chunks = "[?st ''W1'']" and tr = ?tr and ?ids2.0 = ?ids and ?stocks2.0 = "?st ''W2''"
        and ?left2.0 = "[''99999'']" and ?chunks2.0 = "[?st ''W2'']"]
      c d
    by (simp add: cfg worlds accepted_def)
  have v1: "seller_main seller_cfg world_fetch_down []
     = (Inr (), [GetOfferIds ''client'' ''token'', Print TimeoutReport])"
    using main_reports_and_stops [where sw = world_fetch_down and scfg = seller_cfg
        and e = ReadTimeout]
    by (simp add: cfg worlds report_of_def)
  have v2: "seller_main seller_cfg world_download_down []
     = (Inr (), [GetOfferIds ''client'' ''token'', DownloadStock,
          Print (ConnectionReport ConnectionError)])"
    using main_reports_and_stops [where sw = world_download_down and scfg = seller_cfg
        and sids = ?ids and e = ConnectionError]
    by (simp add: cfg worlds report_of_def)
  have v3: "seller_main seller_cfg world_bad_row []
     = (Inr (), [GetOfferIds ''client'' ''token'', DownloadStock, Print (OtherReport ValueError)])"
    using main_reports_and_stops [where sw = world_bad_row and scfg = seller_cfg
        and sids = "[''8'']" and srows = "[row_8_bad]" and e = ValueError] sb
    by (simp add: cfg worlds report_of_def)
  have v4: "seller_main seller_cfg world_stocks_down []
     = (Inr (), [GetOfferIds ''client'' ''token'', DownloadStock,
          UpdateStocks ?ss ''client'' ''token'', Print (ConnectionReport ConnectionError)])"
    using main_reports_and_stops [where sw = world_stocks_down and scfg = seller_cfg
        and sids = ?ids and srows = "[row_63433]" and sstocks = ?ss and sleft = "[''99999'']"
        and schunks = "[?ss]" and k = 0 and e = ConnectionError] s sd
    by (simp add: cfg worlds report_of_def fails_at_def)
  have v5: "seller_main seller_cfg world_int_price []
     = (Inr (), [GetOfferIds ''client'' ''token'', DownloadStock,
          UpdateStocks [seller_stock_entry ''8'' 5, seller_stock_entry ''8'' 0] ''client'' ''token'',
          Print (OtherReport AttributeError)])"
    using main_reports_and_stops [where sw = world_int_price and scfg = seller_cfg
        and sids = "[''8'', ''8'']" and srows = "[row_int_price]"
        and sstocks = "[seller_stock_entry ''8'' 5, seller_stock_entry ''8'' 0]"
        and sleft = "[''8'']"
        and schunks = "[[seller_stock_entry ''8'' 5, seller_stock_entry ''8'' 0]]"
        and str = "?str [seller_stock_entry ''8'' 5, seller_stock_entry ''8'' 0]"
        and e = AttributeError] si sd pi
    by (simp add: cfg worlds report_of_def accepted_def)
  have v6: "seller_main seller_cfg world_prices_down []
     = (Inr (), [GetOfferIds ''client'' ''token'', DownloadStock,
          UpdateStocks [seller_stock_entry ''63433'' 100, seller_stock_entry ''63433'' 0]
            ''client'' ''token'',
          UpdatePrice [seller_price_entry ''63433'' ''2240''] ''client'' ''token'',
          Print TimeoutReport])"
    using main_reports_and_stops [where sw = world_prices_down and scfg = seller_cfg
        and sids = "[''63433'', ''63433'']" and srows = "[row_63433]"
        and sstocks = "[seller_stock_entry ''63433'' 100, seller_stock_entry ''63433'' 0]"
        and sleft = "[''63433'']"
        and schunks = "[[seller_stock_entry ''63433'' 100, seller_stock_entry ''63433'' 0]]"
        and str = "?str [seller_stock_entry ''63433'' 100, seller_stock_entry ''63433'' 0]"
        and prices = "[seller_price_entry ''63433'' ''2240'']"
        and price_chunks = "[[seller_price_entry ''63433'' ''2240'']]"
        and k = 0 and e = ReadTimeout] sp sd pp pd1
    by (simp add: cfg worlds report_of_def accepted_def fails_at_def)
  have v7: "seller_main seller_cfg world_ok []
     = (Inr (), [GetOfferIds ''client'' ''token'', DownloadStock,
          UpdateStocks ?ss ''client'' ''token''])"
    using main_reports_and_stops [where sw = world_ok and scfg = seller_cfg
        and sids = ?ids and srows = "[row_63433]" and sstocks = ?ss and sleft = "[''99999'']"
        and schunks = "[?ss]" and str = "?str ?ss" and prices = "[]" and price_chunks = "[]"]
      s sd p pd
    by (simp add: cfg worlds accepted_def)
  show ?thesis
    by (intro conjI w1 w2 w3 w4 w5 w6 w7 v1 v2 v3 v4 v5 v6 v7)
qed
end
